theory Spec2Isabelle
  imports Main "HOL-Library.AList" "HOL-Library.Char_ord" "HOL-Library.List_Lexorder"
begin

section \<open>The remote scripting object model\<close>

text \<open>
  \<^verbatim>\<open>sap_scripting.py\<close> wraps the COM object model of a running SAP GUI. Every helper of
  \<^verbatim>\<open>SapSession\<close> is a sequence of calls into that remote application, each of which may
  raise. The remote application is modelled as an arbitrary world \<open>'w\<close> together with one
  behaviour per COM method used by the source; a control handle (the COM object returned by
  \<^verbatim>\<open>findById\<close> or \<^verbatim>\<open>findByName\<close>) is a value of an arbitrary type \<open>'h\<close>. Any mock
  session is an instance of this record.

  Strings are \<open>char list\<close>; a character is read as a code point below 256.
  \<^verbatim>\<open>grid.ColumnOrder\<close> (a collection with \<^verbatim>\<open>Count\<close> and an index call) is read as one
  call that yields the list of column identifiers. \<^verbatim>\<open>log.info\<close> and \<^verbatim>\<open>log.debug\<close> lines
  are not modelled; \<^verbatim>\<open>log.warning\<close> is.
\<close>

datatype error = ComError string | ValueError string

record ('w, 'h) remote =
  on_StartTransaction :: "string \<Rightarrow> 'w \<Rightarrow> (error + unit) \<times> 'w"
  on_findById :: "string \<Rightarrow> 'w \<Rightarrow> (error + 'h) \<times> 'w"
  on_findByName :: "string \<Rightarrow> string \<Rightarrow> 'w \<Rightarrow> (error + 'h) \<times> 'w"
  on_set_text :: "'h \<Rightarrow> string \<Rightarrow> 'w \<Rightarrow> (error + unit) \<times> 'w"
  on_set_selected :: "'h \<Rightarrow> bool \<Rightarrow> 'w \<Rightarrow> (error + unit) \<times> 'w"
  on_press :: "'h \<Rightarrow> 'w \<Rightarrow> (error + unit) \<times> 'w"
  on_sendVKey :: "'h \<Rightarrow> int \<Rightarrow> 'w \<Rightarrow> (error + unit) \<times> 'w"
  on_Text :: "'h \<Rightarrow> 'w \<Rightarrow> (error + string) \<times> 'w"
  on_MessageType :: "'h \<Rightarrow> 'w \<Rightarrow> (error + string) \<times> 'w"
  on_ColumnOrder :: "'h \<Rightarrow> 'w \<Rightarrow> (error + string list) \<times> 'w"
  on_RowCount :: "'h \<Rightarrow> 'w \<Rightarrow> (error + int) \<times> 'w"
  on_GetCellValue :: "'h \<Rightarrow> int \<Rightarrow> string \<Rightarrow> 'w \<Rightarrow> (error + string) \<times> 'w"
  on_LockSessionUI :: "'w \<Rightarrow> (error + unit) \<times> 'w"
  on_UnlockSessionUI :: "'w \<Rightarrow> (error + unit) \<times> 'w"

text \<open>
  What a spying mock would record: every call that reaches the remote application, and
  every warning written to the log, in the order they happen.
\<close>

datatype 'h event =
    Ev_StartTransaction string
  | Ev_findById string
  | Ev_findByName string string
  | Ev_set_text 'h string
  | Ev_set_selected 'h bool
  | Ev_press 'h
  | Ev_sendVKey 'h int
  | Ev_Text 'h
  | Ev_MessageType 'h
  | Ev_ColumnOrder 'h
  | Ev_RowCount 'h
  | Ev_GetCellValue 'h int string
  | Ev_LockSessionUI
  | Ev_UnlockSessionUI
  | Ev_log_warning string

text \<open>
  A computation takes the world and the trace so far, and returns either the raised
  exception (\<open>Inl\<close>) or its value (\<open>Inr\<close>), with the world and the trace after it.
\<close>

type_synonym ('w, 'h, 'a) sap = "'w \<times> 'h event list \<Rightarrow> (error + 'a) \<times> ('w \<times> 'h event list)"

definition ret :: "'a \<Rightarrow> ('w, 'h, 'a) sap" where
  "ret x = (\<lambda>s. (Inr x, s))"

definition throw :: "error \<Rightarrow> ('w, 'h, 'a) sap" where
  "throw e = (\<lambda>s. (Inl e, s))"

definition bind :: "('w, 'h, 'a) sap \<Rightarrow> ('a \<Rightarrow> ('w, 'h, 'b) sap) \<Rightarrow> ('w, 'h, 'b) sap" where
  "bind m f = (\<lambda>s. case m s of (Inl e, s') \<Rightarrow> (Inl e, s') | (Inr a, s') \<Rightarrow> f a s')"

text \<open>\<^verbatim>\<open>try: m  except Exception: h\<close>; every \<open>error\<close> is an \<^verbatim>\<open>Exception\<close>.\<close>

definition try_except :: "('w, 'h, 'a) sap \<Rightarrow> (error \<Rightarrow> ('w, 'h, 'a) sap) \<Rightarrow> ('w, 'h, 'a) sap" where
  "try_except m h = (\<lambda>s. case m s of (Inl e, s') \<Rightarrow> h e s' | (Inr a, s') \<Rightarrow> (Inr a, s'))"

text \<open>
  \<^verbatim>\<open>try: m  finally: fin\<close>: \<open>fin\<close> runs after \<open>m\<close> on both outcomes; an exception raised by
  \<open>fin\<close> replaces the outcome of \<open>m\<close>.
\<close>

definition try_finally :: "('w, 'h, 'a) sap \<Rightarrow> ('w, 'h, unit) sap \<Rightarrow> ('w, 'h, 'a) sap" where
  "try_finally m fin =
     (\<lambda>s. case m s of (res, s') \<Rightarrow>
        (case fin s' of (Inl e, s'') \<Rightarrow> (Inl e, s'') | (Inr u, s'') \<Rightarrow> (res, s'')))"

text \<open>\<^verbatim>\<open>for x in xs: body(x)\<close>; an exception raised by the body leaves the loop.\<close>

fun for_each :: "'a list \<Rightarrow> ('a \<Rightarrow> ('w, 'h, unit) sap) \<Rightarrow> ('w, 'h, unit) sap" where
  "for_each [] body = ret ()"
| "for_each (x # xs) body = bind (body x) (\<lambda>u. for_each xs body)"

definition remote_call :: "'h event \<Rightarrow> ('w \<Rightarrow> (error + 'a) \<times> 'w) \<Rightarrow> ('w, 'h, 'a) sap" where
  "remote_call ev behaviour =
     (\<lambda>(w, tr). case behaviour w of (res, w') \<Rightarrow> (res, (w', tr @ [ev])))"

definition log_warning :: "string \<Rightarrow> ('w, 'h, unit) sap" where
  "log_warning msg = (\<lambda>(w, tr). (Inr (), (w, tr @ [Ev_log_warning msg])))"

definition StartTransaction :: "('w, 'h) remote \<Rightarrow> string \<Rightarrow> ('w, 'h, unit) sap" where
  "StartTransaction r tcode = remote_call (Ev_StartTransaction tcode) (on_StartTransaction r tcode)"

definition findById :: "('w, 'h) remote \<Rightarrow> string \<Rightarrow> ('w, 'h, 'h) sap" where
  "findById r element_id = remote_call (Ev_findById element_id) (on_findById r element_id)"

definition findByName :: "('w, 'h) remote \<Rightarrow> string \<Rightarrow> string \<Rightarrow> ('w, 'h, 'h) sap" where
  "findByName r name ftype = remote_call (Ev_findByName name ftype) (on_findByName r name ftype)"

definition set_text :: "('w, 'h) remote \<Rightarrow> 'h \<Rightarrow> string \<Rightarrow> ('w, 'h, unit) sap" where
  "set_text r h v = remote_call (Ev_set_text h v) (on_set_text r h v)"

definition set_selected :: "('w, 'h) remote \<Rightarrow> 'h \<Rightarrow> bool \<Rightarrow> ('w, 'h, unit) sap" where
  "set_selected r h b = remote_call (Ev_set_selected h b) (on_set_selected r h b)"

definition press :: "('w, 'h) remote \<Rightarrow> 'h \<Rightarrow> ('w, 'h, unit) sap" where
  "press r h = remote_call (Ev_press h) (on_press r h)"

definition sendVKey :: "('w, 'h) remote \<Rightarrow> 'h \<Rightarrow> int \<Rightarrow> ('w, 'h, unit) sap" where
  "sendVKey r h vkey = remote_call (Ev_sendVKey h vkey) (on_sendVKey r h vkey)"

definition get_Text :: "('w, 'h) remote \<Rightarrow> 'h \<Rightarrow> ('w, 'h, string) sap" where
  "get_Text r h = remote_call (Ev_Text h) (on_Text r h)"

definition get_MessageType :: "('w, 'h) remote \<Rightarrow> 'h \<Rightarrow> ('w, 'h, string) sap" where
  "get_MessageType r h = remote_call (Ev_MessageType h) (on_MessageType r h)"

definition get_ColumnOrder :: "('w, 'h) remote \<Rightarrow> 'h \<Rightarrow> ('w, 'h, string list) sap" where
  "get_ColumnOrder r grid = remote_call (Ev_ColumnOrder grid) (on_ColumnOrder r grid)"

definition get_RowCount :: "('w, 'h) remote \<Rightarrow> 'h \<Rightarrow> ('w, 'h, int) sap" where
  "get_RowCount r grid = remote_call (Ev_RowCount grid) (on_RowCount r grid)"

definition GetCellValue :: "('w, 'h) remote \<Rightarrow> 'h \<Rightarrow> int \<Rightarrow> string \<Rightarrow> ('w, 'h, string) sap" where
  "GetCellValue r grid row col = remote_call (Ev_GetCellValue grid row col) (on_GetCellValue r grid row col)"

definition LockSessionUI :: "('w, 'h) remote \<Rightarrow> ('w, 'h, unit) sap" where
  "LockSessionUI r = remote_call Ev_LockSessionUI (on_LockSessionUI r)"

definition UnlockSessionUI :: "('w, 'h) remote \<Rightarrow> ('w, 'h, unit) sap" where
  "UnlockSessionUI r = remote_call Ev_UnlockSessionUI (on_UnlockSessionUI r)"

section \<open>SapSession\<close>

subsection \<open>Navigation and element access\<close>

definition VKEY_ENTER :: int where "VKEY_ENTER = 0"
definition VKEY_F8 :: int where "VKEY_F8 = 8"

definition start_transaction :: "('w, 'h) remote \<Rightarrow> string \<Rightarrow> ('w, 'h, unit) sap" where
  "start_transaction r tcode = StartTransaction r tcode"

definition send_vkey :: "('w, 'h) remote \<Rightarrow> int \<Rightarrow> string \<Rightarrow> ('w, 'h, unit) sap" where
  "send_vkey r vkey window_id = bind (findById r window_id) (\<lambda>wnd. sendVKey r wnd vkey)"

text \<open>\<^verbatim>\<open>find_by_id\<close> returns the COM object, or \<^verbatim>\<open>None\<close> if \<^verbatim>\<open>raise_error=False\<close> and not found.\<close>

definition find_by_id :: "('w, 'h) remote \<Rightarrow> string \<Rightarrow> bool \<Rightarrow> ('w, 'h, 'h option) sap" where
  "find_by_id r element_id raise_error =
     try_except (bind (findById r element_id) (\<lambda>h. ret (Some h)))
       (\<lambda>e. if raise_error then throw e else ret None)"

subsection \<open>Field interaction\<close>

text \<open>
  The \<^verbatim>\<open>for ftype in ["ctxt", "txt", "cmb"]\<close> loop of \<^verbatim>\<open>set_field\<close>: the first type whose
  lookup succeeds breaks out of the loop; the \<^verbatim>\<open>else\<close> branch of the loop raises
  \<^verbatim>\<open>ValueError\<close>.
\<close>

fun set_field_probe :: "('w, 'h) remote \<Rightarrow> string \<Rightarrow> string list \<Rightarrow> ('w, 'h, 'h) sap" where
  "set_field_probe r field_name [] =
     throw (ValueError (''Field '' @ [CHR 0x27] @ field_name @ [CHR 0x27] @ '' not found as ctxt/txt/cmb''))"
| "set_field_probe r field_name (ftype # ftypes) =
     try_except (findByName r field_name ftype) (\<lambda>e. set_field_probe r field_name ftypes)"

definition set_field :: "('w, 'h) remote \<Rightarrow> string \<Rightarrow> string \<Rightarrow> string \<Rightarrow> ('w, 'h, unit) sap" where
  "set_field r field_name v field_type =
     bind (if field_type \<noteq> [] then findByName r field_name field_type
           else set_field_probe r field_name [''ctxt'', ''txt'', ''cmb''])
       (\<lambda>element. set_text r element v)"

definition set_field_by_id :: "('w, 'h) remote \<Rightarrow> string \<Rightarrow> string \<Rightarrow> ('w, 'h, unit) sap" where
  "set_field_by_id r element_id v = bind (findById r element_id) (\<lambda>element. set_text r element v)"

definition set_checkbox_by_id :: "('w, 'h) remote \<Rightarrow> string \<Rightarrow> bool \<Rightarrow> ('w, 'h, unit) sap" where
  "set_checkbox_by_id r element_id checked =
     bind (findById r element_id) (\<lambda>element. set_selected r element checked)"

subsection \<open>Status bar and pop-up handling\<close>

definition get_statusbar :: "('w, 'h) remote \<Rightarrow> ('w, 'h, string \<times> string) sap" where
  "get_statusbar r =
     bind (findById r ''wnd[0]/sbar'') (\<lambda>sbar.
     bind (get_Text r sbar) (\<lambda>txt.
     bind (get_MessageType r sbar) (\<lambda>ty. ret (txt, ty))))"

text \<open>Returns the error message text if the status bar shows an error, else \<^verbatim>\<open>None\<close>.\<close>

definition check_statusbar_error :: "('w, 'h) remote \<Rightarrow> ('w, 'h, string option) sap" where
  "check_statusbar_error r =
     bind (get_statusbar r) (\<lambda>(txt, ty).
       if ty \<in> set [''E'', ''A''] then ret (Some txt) else ret None)"

text \<open>
  The \<^verbatim>\<open>try\<close> block of \<^verbatim>\<open>handle_popup\<close>: press the button, \<^verbatim>\<open>True\<close> if that worked and
  \<^verbatim>\<open>False\<close> on any exception.
\<close>

definition press_dismiss :: "('w, 'h) remote \<Rightarrow> string \<Rightarrow> ('w, 'h, bool) sap" where
  "press_dismiss r button_id =
     try_except
       (bind (findById r button_id) (\<lambda>btn. bind (press r btn) (\<lambda>u. ret True)))
       (\<lambda>e. ret False)"

definition handle_popup :: "('w, 'h) remote \<Rightarrow> string \<Rightarrow> bool \<Rightarrow> ('w, 'h, bool) sap" where
  "handle_popup r button_id check_exists =
     (if check_exists then
        bind (find_by_id r ''wnd[1]'' False) (\<lambda>popup.
          if popup = None then ret False else press_dismiss r button_id)
      else press_dismiss r button_id)"

subsection \<open>Session locking\<close>

definition lock_ui :: "('w, 'h) remote \<Rightarrow> ('w, 'h, unit) sap" where
  "lock_ui r = LockSessionUI r"

definition unlock_ui :: "('w, 'h) remote \<Rightarrow> ('w, 'h, unit) sap" where
  "unlock_ui r = UnlockSessionUI r"

text \<open>
  The context manager \<^verbatim>\<open>locked\<close>: \<^verbatim>\<open>lock_ui\<close> runs on entry, outside the \<^verbatim>\<open>try\<close>; the
  protected block runs at the \<^verbatim>\<open>yield\<close>; \<^verbatim>\<open>unlock_ui\<close> is the \<^verbatim>\<open>finally\<close> clause.
\<close>

definition locked :: "('w, 'h) remote \<Rightarrow> ('w, 'h, 'a) sap \<Rightarrow> ('w, 'h, 'a) sap" where
  "locked r block = bind (lock_ui r) (\<lambda>u. try_finally block (unlock_ui r))"

subsection \<open>Grid\<close>

definition common_paths :: "string \<Rightarrow> string list" where
  "common_paths search_id =
     [search_id @ ''/cntlRESULT_LIST/shellcont/shell'',
      search_id @ ''/cntlCONTAINER/shellcont/shell'',
      search_id @ ''/cntlGRID1/shellcont/shell'',
      search_id @ ''/cntlGRID/shellcont/shell'',
      search_id @ ''/cntlALV_CONTAINER/shellcont/shell'']"

fun find_grid_probe :: "('w, 'h) remote \<Rightarrow> string list \<Rightarrow> ('w, 'h, 'h option) sap" where
  "find_grid_probe r [] = ret None"
| "find_grid_probe r (path # paths) =
     bind (find_by_id r path False) (\<lambda>grid.
       if grid \<noteq> None then ret grid else find_grid_probe r paths)"

definition find_grid :: "('w, 'h) remote \<Rightarrow> string \<Rightarrow> ('w, 'h, 'h option) sap" where
  "find_grid r search_id = find_grid_probe r (common_paths search_id)"

definition grid_get_columns :: "('w, 'h) remote \<Rightarrow> 'h \<Rightarrow> ('w, 'h, string list) sap" where
  "grid_get_columns r grid = get_ColumnOrder r grid"

text \<open>\<^verbatim>\<open>range(n)\<close> for a Python integer \<open>n\<close>: empty when \<open>n \<le> 0\<close>.\<close>

definition py_range :: "int \<Rightarrow> int list" where
  "py_range n = map int [0..<nat n]"

text \<open>
  A row record is a Python \<^verbatim>\<open>dict\<close>: an association list in insertion order, where
  \<^verbatim>\<open>record[col] = v\<close> overwrites the value of a key already present and appends a new key
  otherwise (\<open>AList.update\<close>).
\<close>

type_synonym row_record = "(string \<times> string) list"

text \<open>The inner loop of \<^verbatim>\<open>grid_read_all\<close>, over the columns of one row.\<close>

fun read_cells :: "('w, 'h) remote \<Rightarrow> 'h \<Rightarrow> int \<Rightarrow> string list \<Rightarrow> row_record \<Rightarrow> ('w, 'h, row_record) sap" where
  "read_cells r grid row [] record = ret record"
| "read_cells r grid row (col # cols) record =
     bind (try_except
             (bind (GetCellValue r grid row col) (\<lambda>v. ret (AList.update col v record)))
             (\<lambda>e. ret (AList.update col [] record)))
       (\<lambda>record'. read_cells r grid row cols record')"

text \<open>The outer loop, over the rows; \<open>data\<close> is the list being appended to.\<close>

fun read_rows :: "('w, 'h) remote \<Rightarrow> 'h \<Rightarrow> int list \<Rightarrow> string list \<Rightarrow> row_record list \<Rightarrow> ('w, 'h, row_record list) sap" where
  "read_rows r grid [] columns data = ret data"
| "read_rows r grid (row # rows) columns data =
     bind (read_cells r grid row columns []) (\<lambda>record.
       read_rows r grid rows columns (data @ [record]))"

definition grid_read_all :: "('w, 'h) remote \<Rightarrow> 'h \<Rightarrow> string list option \<Rightarrow> int \<Rightarrow> ('w, 'h, row_record list) sap" where
  "grid_read_all r grid columns max_rows =
     bind (case columns of None \<Rightarrow> grid_get_columns r grid | Some cs \<Rightarrow> ret cs) (\<lambda>columns.
     bind (get_RowCount r grid) (\<lambda>total.
       read_rows r grid (py_range (if max_rows > 0 then min total max_rows else total)) columns []))"

text \<open>
  \<^verbatim>\<open>str.isspace\<close> on the code points below 256, and \<^verbatim>\<open>str.strip()\<close>.
\<close>

definition isspace :: "char \<Rightarrow> bool" where
  "isspace c = ((of_char c :: nat) \<in> set [9, 10, 11, 12, 13, 28, 29, 30, 31, 32, 133, 160])"

definition strip :: "string \<Rightarrow> string" where
  "strip s = rev (dropWhile isspace (rev (dropWhile isspace s)))"

text \<open>
  The loop of \<^verbatim>\<open>grid_get_distinct\<close>; \<open>values\<close> is the Python \<^verbatim>\<open>set\<close>. The cell read is
  not inside any \<^verbatim>\<open>try\<close>.
\<close>

fun distinct_loop :: "('w, 'h) remote \<Rightarrow> 'h \<Rightarrow> string \<Rightarrow> int list \<Rightarrow> string set \<Rightarrow> ('w, 'h, string set) sap" where
  "distinct_loop r grid column [] values = ret values"
| "distinct_loop r grid column (row # rows) values =
     bind (GetCellValue r grid row column) (\<lambda>v.
       distinct_loop r grid column rows (insert (strip v) values))"

text \<open>\<^verbatim>\<open>sorted(values)\<close> orders strings lexicographically by code point.\<close>

definition grid_get_distinct :: "('w, 'h) remote \<Rightarrow> 'h \<Rightarrow> string \<Rightarrow> ('w, 'h, string list) sap" where
  "grid_get_distinct r grid column =
     bind (get_RowCount r grid) (\<lambda>n.
     bind (distinct_loop r grid column (py_range n) {}) (\<lambda>values.
       ret (sorted_list_of_set values)))"

section \<open>Workflow helpers\<close>

text \<open>\<^verbatim>\<open>str(n)\<close> and the \<^verbatim>\<open>{idx}\<close> of an f-string, for Python integers.\<close>

fun str_nat :: "nat \<Rightarrow> string" where
  "str_nat n =
     (if n < 10 then [''0123456789'' ! n]
      else str_nat (n div 10) @ [''0123456789'' ! (n mod 10)])"

declare str_nat.simps [simp del]

definition str_int :: "int \<Rightarrow> string" where
  "str_int i = (if i < 0 then ''-'' @ str_nat (nat (- i)) else str_nat (nat i))"

text \<open>Truthiness of an \<^verbatim>\<open>Optional[str]\<close>: \<^verbatim>\<open>None\<close> and the empty string are false.\<close>

definition truthy :: "string option \<Rightarrow> bool" where
  "truthy err = (case err of None \<Rightarrow> False | Some txt \<Rightarrow> txt \<noteq> [])"

subsection \<open>run\_transaction\_report\<close>

text \<open>
  The body of the fill loop: \<^verbatim>\<open>set_field\<close> with its own fallback over the field types, then
  \<^verbatim>\<open>set_field(..., "txt")\<close>, then a warning.
\<close>

definition fill_field :: "('w, 'h) remote \<Rightarrow> string \<Rightarrow> string \<Rightarrow> ('w, 'h, unit) sap" where
  "fill_field r field_name v =
     try_except (set_field r field_name v [])
       (\<lambda>e. try_except (set_field r field_name v ''txt'')
          (\<lambda>e'. log_warning (''Could not set field '' @ field_name)))"

text \<open>
  \<^verbatim>\<open>selection_fields\<close> is a \<^verbatim>\<open>dict\<close> or \<^verbatim>\<open>None\<close>; \<^verbatim>\<open>items()\<close> gives its entries in
  insertion order. \<^verbatim>\<open>None\<close> and the empty \<^verbatim>\<open>dict\<close> are false.
\<close>

definition fill_selection_screen :: "('w, 'h) remote \<Rightarrow> (string \<times> string) list option \<Rightarrow> ('w, 'h, unit) sap" where
  "fill_selection_screen r selection_fields =
     (case selection_fields of
        None \<Rightarrow> ret ()
      | Some items \<Rightarrow>
          if items \<noteq> [] then for_each items (\<lambda>(field_name, v). fill_field r field_name v)
          else ret ())"

text \<open>
  \<^verbatim>\<open>run_transaction_report\<close> up to and including \<^verbatim>\<open>sap.handle_popup()\<close>, and from
  \<^verbatim>\<open>sap.check_statusbar_error()\<close> on.
\<close>

definition report_execute :: "('w, 'h) remote \<Rightarrow> string \<Rightarrow> (string \<times> string) list option \<Rightarrow> int \<Rightarrow> ('w, 'h, bool) sap" where
  "report_execute r tcode selection_fields execute_vkey =
     bind (start_transaction r tcode) (\<lambda>u.
     bind (fill_selection_screen r selection_fields) (\<lambda>u.
     bind (send_vkey r execute_vkey ''wnd[0]'') (\<lambda>u.
       handle_popup r ''wnd[1]/tbar[0]/btn[0]'' True)))"

definition report_read_grid :: "('w, 'h) remote \<Rightarrow> string \<Rightarrow> string list option \<Rightarrow> int \<Rightarrow> ('w, 'h, row_record list) sap" where
  "report_read_grid r tcode read_columns max_rows =
     bind (find_grid r ''wnd[0]/usr'') (\<lambda>grid.
       case grid of
         None \<Rightarrow> bind (log_warning (tcode @ '': No grid found'')) (\<lambda>u. ret [])
       | Some g \<Rightarrow> grid_read_all r g read_columns max_rows)"

definition report_harvest :: "('w, 'h) remote \<Rightarrow> string \<Rightarrow> string list option \<Rightarrow> int \<Rightarrow> ('w, 'h, row_record list) sap" where
  "report_harvest r tcode read_columns max_rows =
     bind (check_statusbar_error r) (\<lambda>err.
       if truthy err then bind (log_warning (tcode @ '' status: '' @ the err)) (\<lambda>u. ret [])
       else report_read_grid r tcode read_columns max_rows)"

definition run_transaction_report :: "('w, 'h) remote \<Rightarrow> string \<Rightarrow> (string \<times> string) list option \<Rightarrow> int \<Rightarrow> string list option \<Rightarrow> int \<Rightarrow> ('w, 'h, row_record list) sap" where
  "run_transaction_report r tcode selection_fields execute_vkey read_columns max_rows =
     bind (report_execute r tcode selection_fields execute_vkey) (\<lambda>popup.
       report_harvest r tcode read_columns max_rows)"

subsection \<open>run\_se16h\<close>

text \<open>
  A field config, an element of the \<^verbatim>\<open>fields\<close> argument (here \<open>cfgs\<close>): its \<^verbatim>\<open>"name"\<close>,
  the truth of \<^verbatim>\<open>.get("group")\<close> and of \<^verbatim>\<open>.get("sum")\<close>, and the
  \<^verbatim>\<open>"value"\<close> entry when the key is present.
\<close>

record field_cfg =
  fc_name :: string
  fc_group :: bool
  fc_sum :: bool
  fc_value :: "string option"

text \<open>The body of the first loop, which fills row \<open>idx\<close> of the SE16H fields table.\<close>

definition se16h_table_row :: "('w, 'h) remote \<Rightarrow> nat \<Rightarrow> field_cfg \<Rightarrow> ('w, 'h, unit) sap" where
  "se16h_table_row r idx cfg =
     bind (set_field_by_id r
             (''wnd[0]/usr/tblSAPLSE16HFIELDS_TABLE/ctxtGS_FIELDS-FIELDNAME[0,'' @ str_nat idx @ '']'')
             (fc_name cfg)) (\<lambda>u.
     bind (if fc_group cfg then
             set_checkbox_by_id r
               (''wnd[0]/usr/tblSAPLSE16HFIELDS_TABLE/chkGS_FIELDS-AGGR[4,'' @ str_nat idx @ '']'') True
           else ret ()) (\<lambda>u.
       if fc_sum cfg then
         set_checkbox_by_id r
           (''wnd[0]/usr/tblSAPLSE16HFIELDS_TABLE/chkGS_FIELDS-SUM[5,'' @ str_nat idx @ '']'') True
       else ret ()))"

text \<open>The body of the second loop, which sets the selection values.\<close>

definition se16h_selection_value :: "('w, 'h) remote \<Rightarrow> field_cfg \<Rightarrow> ('w, 'h, unit) sap" where
  "se16h_selection_value r cfg =
     (case fc_value cfg of
        None \<Rightarrow> ret ()
      | Some v \<Rightarrow> try_except (set_field r (fc_name cfg) v []) (\<lambda>e. ret ()))"

text \<open>
  \<^verbatim>\<open>run_se16h\<close> up to and including \<^verbatim>\<open>sap.handle_popup()\<close>, and from
  \<^verbatim>\<open>sap.check_statusbar_error()\<close> on.
\<close>

definition se16h_execute :: "('w, 'h) remote \<Rightarrow> string \<Rightarrow> field_cfg list \<Rightarrow> int \<Rightarrow> ('w, 'h, bool) sap" where
  "se16h_execute r table cfgs max_rows =
     bind (start_transaction r ''SE16H'') (\<lambda>u.
     bind (set_field_by_id r ''wnd[0]/usr/ctxtGD-TAB'' table) (\<lambda>u.
     bind (send_vkey r VKEY_ENTER ''wnd[0]'') (\<lambda>u.
     bind (for_each (zip [0..<length cfgs] cfgs) (\<lambda>(idx, cfg). se16h_table_row r idx cfg)) (\<lambda>u.
     bind (send_vkey r VKEY_ENTER ''wnd[0]'') (\<lambda>u.
     bind (for_each cfgs (se16h_selection_value r)) (\<lambda>u.
     bind (if max_rows > 0 then
             try_except (set_field_by_id r ''wnd[0]/usr/txtGD-MAX_LINES'' (str_int max_rows))
               (\<lambda>e. ret ())
           else ret ()) (\<lambda>u.
     bind (send_vkey r VKEY_F8 ''wnd[0]'') (\<lambda>u.
       handle_popup r ''wnd[1]/tbar[0]/btn[0]'' True))))))))"

definition se16h_read_grid :: "('w, 'h) remote \<Rightarrow> field_cfg list \<Rightarrow> int \<Rightarrow> ('w, 'h, row_record list) sap" where
  "se16h_read_grid r cfgs max_rows =
     bind (find_grid r ''wnd[0]/usr'') (\<lambda>grid.
       case grid of
         None \<Rightarrow> bind (log_warning ''SE16H: No grid found in results'') (\<lambda>u. ret [])
       | Some g \<Rightarrow>
           grid_read_all r g
             (Some (map fc_name cfgs @ (if list_ex fc_group cfgs then [''COUNT''] else [])))
             max_rows)"

definition se16h_harvest :: "('w, 'h) remote \<Rightarrow> field_cfg list \<Rightarrow> int \<Rightarrow> ('w, 'h, row_record list) sap" where
  "se16h_harvest r cfgs max_rows =
     bind (check_statusbar_error r) (\<lambda>err.
       if truthy err then bind (log_warning (''SE16H status: '' @ the err)) (\<lambda>u. ret [])
       else se16h_read_grid r cfgs max_rows)"

definition run_se16h :: "('w, 'h) remote \<Rightarrow> string \<Rightarrow> field_cfg list \<Rightarrow> int \<Rightarrow> ('w, 'h, row_record list) sap" where
  "run_se16h r table cfgs max_rows =
     bind (se16h_execute r table cfgs max_rows) (\<lambda>popup.
       se16h_harvest r cfgs max_rows)"

section \<open>Reading a trace\<close>



section \<open>A mock session\<close>

text \<open>
  A stateless mock of the remote application, for running the definitions on concrete
  inputs. A handle is the address (or type prefix and name) of the control it stands for.
\<close>

record mock_session =
  present_ids :: "string list"
  present_names :: "(string \<times> string) list"
  failing_press :: "string list"
  status_text :: string
  status_type :: string
  column_order :: "string list"
  row_count :: int
  cell :: "int \<Rightarrow> string \<Rightarrow> error + string"

definition mock_remote :: "mock_session \<Rightarrow> (unit, string) remote" where
  "mock_remote m =
     \<lparr> on_StartTransaction = (\<lambda>tcode w. (Inr (), w)),
       on_findById = (\<lambda>p w. (if p \<in> set (present_ids m) then Inr p else Inl (ComError p), w)),
       on_findByName = (\<lambda>n t w.
          (if (n, t) \<in> set (present_names m) then Inr (t @ n) else Inl (ComError (t @ n)), w)),
       on_set_text = (\<lambda>h v w. (Inr (), w)),
       on_set_selected = (\<lambda>h b w. (Inr (), w)),
       on_press = (\<lambda>h w. (if h \<in> set (failing_press m) then Inl (ComError h) else Inr (), w)),
       on_sendVKey = (\<lambda>h k w. (Inr (), w)),
       on_Text = (\<lambda>h w. (Inr (status_text m), w)),
       on_MessageType = (\<lambda>h w. (Inr (status_type m), w)),
       on_ColumnOrder = (\<lambda>h w. (Inr (column_order m), w)),
       on_RowCount = (\<lambda>h w. (Inr (row_count m), w)),
       on_GetCellValue = (\<lambda>h row col w. (cell m row col, w)),
       on_LockSessionUI = (\<lambda>w. (Inr (), w)),
       on_UnlockSessionUI = (\<lambda>w. (Inr (), w)) \<rparr>"

text \<open>
  A screen with a modal window whose dismiss button raises when pressed, and a status bar
  that reports severity \<^verbatim>\<open>E\<close> with an empty text.
\<close>

definition stuck_popup :: mock_session where
  "stuck_popup =
     \<lparr> present_ids = [''wnd[0]'', ''wnd[1]'', ''wnd[1]/tbar[0]/btn[0]''],
       present_names = [],
       failing_press = [''wnd[1]/tbar[0]/btn[0]''],
       status_text = '''', status_type = ''E'',
       column_order = [], row_count = 0, cell = (\<lambda>row col. Inr '''') \<rparr>"

text \<open>A screen with no modal window and a status bar that reports success.\<close>

definition plain_screen :: mock_session where
  "plain_screen =
     \<lparr> present_ids = [''wnd[0]'', ''wnd[0]/sbar''],
       present_names = [],
       failing_press = [],
       status_text = '''', status_type = ''S'',
       column_order = [], row_count = 0, cell = (\<lambda>row col. Inr '''') \<rparr>"

text \<open>
  A results screen whose grid has three rows and two columns; every read of column
  \<^verbatim>\<open>K\<close> raises.
\<close>

definition broken_column_grid :: mock_session where
  "broken_column_grid =
     \<lparr> present_ids = [''wnd[0]'', ''wnd[0]/sbar'', ''wnd[0]/usr/cntlGRID1/shellcont/shell''],
       present_names = [(''BUKRS'', ''ctxt''), (''GJAHR'', ''txt'')],
       failing_press = [],
       status_text = '''', status_type = ''S'',
       column_order = [''BUKRS'', ''K''], row_count = 3,
       cell = (\<lambda>row col. if col = ''K'' then Inl (ComError ''unreadable'') else Inr (str_int row)) \<rparr>"

text \<open>A grid with one column of four values that differ only in surrounding blanks.\<close>

definition padded_values_grid :: mock_session where
  "padded_values_grid =
     \<lparr> present_ids = [''wnd[0]''],
       present_names = [],
       failing_press = [],
       status_text = '''', status_type = ''S'',
       column_order = [''COL''], row_count = 4,
       cell = (\<lambda>row col.
          if 0 \<le> row \<and> row < 4 then Inr ([''A '', ''A'', '' A'', ''B''] ! nat row)
          else Inl (ComError ''row'')) \<rparr>"

text \<open>
  A results screen after an execute that the remote application rejected without a
  message: the status bar has severity \<^verbatim>\<open>E\<close> and an empty text, and the grid of the
  previous result list (three rows, two columns) is still on the screen.
\<close>

definition silent_error_grid :: mock_session where
  "silent_error_grid =
     \<lparr> present_ids =
         [''wnd[0]'', ''wnd[0]/sbar'', ''wnd[0]/usr/ctxtGD-TAB'',
          ''wnd[0]/usr/tblSAPLSE16HFIELDS_TABLE/ctxtGS_FIELDS-FIELDNAME[0,0]'',
          ''wnd[0]/usr/cntlGRID1/shellcont/shell''],
       present_names = [(''BUKRS'', ''ctxt'')],
       failing_press = [],
       status_text = '''', status_type = ''E'',
       column_order = [''BUKRS'', ''GJAHR''], row_count = 3,
       cell = (\<lambda>row col. Inr (col @ ''-'' @ str_int row)) \<rparr>"

text \<open>The same screen, with severity \<^verbatim>\<open>A\<close>.\<close>

definition silent_abort_grid :: mock_session where
  "silent_abort_grid = silent_error_grid \<lparr> status_type := ''A'' \<rparr>"

section \<open>Properties\<close>

lemmas sap_defs =
  ret_def throw_def bind_def try_except_def try_finally_def remote_call_def log_warning_def

subsection \<open>Element resolution\<close>

text \<open>
  Claim C5. For every element address, strict resolution (\<^verbatim>\<open>find_by_id\<close> with
  \<^verbatim>\<open>raise_error=True\<close>) returns the corresponding control when the address resolves and
  raises the lookup's exception on a miss, while tolerant resolution
  (\<^verbatim>\<open>raise_error=False\<close>) returns \<^verbatim>\<open>None\<close> on an absent address without raising. Each mode
  makes exactly one \<^verbatim>\<open>findById\<close> call.
\<close>

theorem find_by_id_modes:
  "(on_findById r p w = (Inr h, w1) \<longrightarrow>
      find_by_id r p True (w, tr) = (Inr (Some h), (w1, tr @ [Ev_findById p])) \<and>
      find_by_id r p False (w, tr) = (Inr (Some h), (w1, tr @ [Ev_findById p]))) \<and>
   (on_findById r q w = (Inl e, w2) \<longrightarrow>
      find_by_id r q True (w, tr) = (Inl e, (w2, tr @ [Ev_findById q])) \<and>
      find_by_id r q False (w, tr) = (Inr None, (w2, tr @ [Ev_findById q])))"
  by (simp add: find_by_id_def findById_def sap_defs)

theorem find_by_id_modes_witness:
  "find_by_id (mock_remote stuck_popup) ''wnd[1]'' True ((), [])
     = (Inr (Some ''wnd[1]''), ((), [Ev_findById ''wnd[1]'']))
 \<and> find_by_id (mock_remote stuck_popup) ''wnd[1]'' False ((), [])
     = (Inr (Some ''wnd[1]''), ((), [Ev_findById ''wnd[1]'']))
 \<and> find_by_id (mock_remote stuck_popup) ''wnd[2]'' True ((), [])
     = (Inl (ComError ''wnd[2]''), ((), [Ev_findById ''wnd[2]'']))
 \<and> find_by_id (mock_remote stuck_popup) ''wnd[2]'' False ((), [])
     = (Inr None, ((), [Ev_findById ''wnd[2]'']))"
proof -
  have present: "on_findById (mock_remote stuck_popup) ''wnd[1]'' () = (Inr ''wnd[1]'', ())"
    by (simp add: mock_remote_def stuck_popup_def)
  have absent:
    "on_findById (mock_remote stuck_popup) ''wnd[2]'' () = (Inl (ComError ''wnd[2]''), ())"
    by (simp add: mock_remote_def stuck_popup_def)
  from find_by_id_modes [of "mock_remote stuck_popup" "''wnd[1]''" "()" "''wnd[1]''" "()" "[]"
      "''wnd[2]''" "ComError ''wnd[2]''" "()"] present absent
  show ?thesis by simp
qed

subsection \<open>Pop-up handling\<close>

lemma press_dismiss_total: "\<exists>b s'. press_dismiss r button_id s = (Inr b, s')"
  by (cases s)
    (auto simp add: press_dismiss_def findById_def press_def sap_defs
      split: prod.splits sum.splits)

lemma handle_popup_total: "\<exists>b s'. handle_popup r button_id check_exists s = (Inr b, s')"
  using press_dismiss_total [of r button_id]
  by (cases s)
    (auto simp add: handle_popup_def find_by_id_def findById_def sap_defs
      split: prod.splits sum.splits)

text \<open>
  Claim C1 says that \<^verbatim>\<open>handle_popup\<close> raises when the modal window is confirmed present
  and pressing the dismiss control fails. On the screen \<open>stuck_popup\<close> the window
  \<^verbatim>\<open>wnd[1]\<close> resolves, the button resolves, the press raises, and \<^verbatim>\<open>handle_popup\<close>
  returns \<^verbatim>\<open>False\<close>: the \<^verbatim>\<open>except Exception: return False\<close> clause swallows the failure.
\<close>

theorem handle_popup_counterexample:
  "on_findById (mock_remote stuck_popup) ''wnd[1]'' () = (Inr ''wnd[1]'', ())
 \<and> on_findById (mock_remote stuck_popup) ''wnd[1]/tbar[0]/btn[0]'' ()
     = (Inr ''wnd[1]/tbar[0]/btn[0]'', ())
 \<and> on_press (mock_remote stuck_popup) ''wnd[1]/tbar[0]/btn[0]'' ()
     = (Inl (ComError ''wnd[1]/tbar[0]/btn[0]''), ())
 \<and> handle_popup (mock_remote stuck_popup) ''wnd[1]/tbar[0]/btn[0]'' True ((), [])
     = (Inr False,
        ((), [Ev_findById ''wnd[1]'', Ev_findById ''wnd[1]/tbar[0]/btn[0]'',
              Ev_press ''wnd[1]/tbar[0]/btn[0]'']))"
  by (simp add: handle_popup_def press_dismiss_def find_by_id_def findById_def press_def
      sap_defs mock_remote_def stuck_popup_def)

text \<open>
  Claim C1, amended. For every session state in which a secondary (modal) window is
  confirmed present but pressing the configured dismiss control fails, because the press
  raises or because the control itself does not resolve, \<^verbatim>\<open>handle_popup\<close> returns
  \<^verbatim>\<open>False\<close> and raises nothing; when the press succeeds it returns \<^verbatim>\<open>True\<close>. A failing
  existence check alone is tolerated as well (the result is \<^verbatim>\<open>False\<close> after the single
  lookup of \<^verbatim>\<open>wnd[1]\<close>). With \<^verbatim>\<open>check_exists=False\<close> the same three outcomes of the dismiss
  attempt hold without the lookup of \<^verbatim>\<open>wnd[1]\<close>. \<^verbatim>\<open>handle_popup\<close> never raises, whatever
  the session does.
\<close>

theorem handle_popup_swallows:
  "(on_findById r ''wnd[1]'' w = (Inr popup, w1) \<and> on_findById r button_id w1 = (Inr btn, w2)
      \<and> on_press r btn w2 = (Inl e, w3) \<longrightarrow>
      handle_popup r button_id True (w, tr)
        = (Inr False, (w3, tr @ [Ev_findById ''wnd[1]'', Ev_findById button_id, Ev_press btn]))) \<and>
   (on_findById r ''wnd[1]'' w = (Inr popup, w1) \<and> on_findById r button_id w1 = (Inl e, w2) \<longrightarrow>
      handle_popup r button_id True (w, tr)
        = (Inr False, (w2, tr @ [Ev_findById ''wnd[1]'', Ev_findById button_id]))) \<and>
   (on_findById r ''wnd[1]'' w = (Inr popup, w1) \<and> on_findById r button_id w1 = (Inr btn, w2)
      \<and> on_press r btn w2 = (Inr (), w3) \<longrightarrow>
      handle_popup r button_id True (w, tr)
        = (Inr True, (w3, tr @ [Ev_findById ''wnd[1]'', Ev_findById button_id, Ev_press btn]))) \<and>
   (on_findById r ''wnd[1]'' w = (Inl e', w1') \<longrightarrow>
      handle_popup r button_id True (w, tr) = (Inr False, (w1', tr @ [Ev_findById ''wnd[1]'']))) \<and>
   (on_findById r button_id w = (Inr btn, w2) \<and> on_press r btn w2 = (Inl e, w3) \<longrightarrow>
      handle_popup r button_id False (w, tr)
        = (Inr False, (w3, tr @ [Ev_findById button_id, Ev_press btn]))) \<and>
   (on_findById r button_id w = (Inl e, w2) \<longrightarrow>
      handle_popup r button_id False (w, tr) = (Inr False, (w2, tr @ [Ev_findById button_id]))) \<and>
   (on_findById r button_id w = (Inr btn, w2) \<and> on_press r btn w2 = (Inr (), w3) \<longrightarrow>
      handle_popup r button_id False (w, tr)
        = (Inr True, (w3, tr @ [Ev_findById button_id, Ev_press btn]))) \<and>
   fst (handle_popup r button_id check_exists s) \<noteq> Inl e''"
  using handle_popup_total [of r button_id check_exists s]
  by (auto simp add: handle_popup_def press_dismiss_def find_by_id_def findById_def press_def
      sap_defs)

theorem handle_popup_swallows_witness:
  "handle_popup (mock_remote stuck_popup) ''wnd[1]/tbar[0]/btn[0]'' True ((), [])
     = (Inr False,
        ((), [Ev_findById ''wnd[1]'', Ev_findById ''wnd[1]/tbar[0]/btn[0]'',
              Ev_press ''wnd[1]/tbar[0]/btn[0]'']))
 \<and> handle_popup (mock_remote stuck_popup) ''wnd[1]/usr/btnOK'' True ((), [])
     = (Inr False, ((), [Ev_findById ''wnd[1]'', Ev_findById ''wnd[1]/usr/btnOK'']))
 \<and> handle_popup (mock_remote stuck_popup) ''wnd[0]'' True ((), [])
     = (Inr True, ((), [Ev_findById ''wnd[1]'', Ev_findById ''wnd[0]'', Ev_press ''wnd[0]'']))
 \<and> handle_popup (mock_remote plain_screen) ''wnd[1]/tbar[0]/btn[0]'' True ((), [])
     = (Inr False, ((), [Ev_findById ''wnd[1]'']))
 \<and> handle_popup (mock_remote stuck_popup) ''wnd[1]/tbar[0]/btn[0]'' False ((), [])
     = (Inr False,
        ((), [Ev_findById ''wnd[1]/tbar[0]/btn[0]'', Ev_press ''wnd[1]/tbar[0]/btn[0]'']))
 \<and> handle_popup (mock_remote stuck_popup) ''wnd[1]/usr/btnOK'' False ((), [])
     = (Inr False, ((), [Ev_findById ''wnd[1]/usr/btnOK'']))
 \<and> handle_popup (mock_remote stuck_popup) ''wnd[0]'' False ((), [])
     = (Inr True, ((), [Ev_findById ''wnd[0]'', Ev_press ''wnd[0]'']))"
proof -
  let ?r = "mock_remote stuck_popup"
  have present: "on_findById ?r ''wnd[1]'' () = (Inr ''wnd[1]'', ())"
    and button: "on_findById ?r ''wnd[1]/tbar[0]/btn[0]'' () = (Inr ''wnd[1]/tbar[0]/btn[0]'', ())"
    and fails: "on_press ?r ''wnd[1]/tbar[0]/btn[0]'' ()
      = (Inl (ComError ''wnd[1]/tbar[0]/btn[0]''), ())"
    and no_button: "on_findById ?r ''wnd[1]/usr/btnOK'' () = (Inl (ComError ''wnd[1]/usr/btnOK''), ())"
    and other: "on_findById ?r ''wnd[0]'' () = (Inr ''wnd[0]'', ())"
    and pressed: "on_press ?r ''wnd[0]'' () = (Inr (), ())"
    by (simp_all add: mock_remote_def stuck_popup_def)
  have absent: "on_findById (mock_remote plain_screen) ''wnd[1]'' () = (Inl (ComError ''wnd[1]''), ())"
    by (simp add: mock_remote_def plain_screen_def)
  from handle_popup_swallows [where r = ?r and w = "()" and popup = "''wnd[1]''" and ?w1.0 = "()"
      and button_id = "''wnd[1]/tbar[0]/btn[0]''" and btn = "''wnd[1]/tbar[0]/btn[0]''"
      and ?w2.0 = "()" and e = "ComError ''wnd[1]/tbar[0]/btn[0]''" and ?w3.0 = "()" and tr = "[]"]
    present button fails
  have first: "handle_popup ?r ''wnd[1]/tbar[0]/btn[0]'' True ((), [])
     = (Inr False,
        ((), [Ev_findById ''wnd[1]'', Ev_findById ''wnd[1]/tbar[0]/btn[0]'',
              Ev_press ''wnd[1]/tbar[0]/btn[0]'']))"
    by simp
  from handle_popup_swallows [where r = ?r and w = "()" and popup = "''wnd[1]''" and ?w1.0 = "()"
      and button_id = "''wnd[1]/usr/btnOK''" and ?w2.0 = "()"
      and e = "ComError ''wnd[1]/usr/btnOK''" and tr = "[]"]
    present no_button
  have second: "handle_popup ?r ''wnd[1]/usr/btnOK'' True ((), [])
     = (Inr False, ((), [Ev_findById ''wnd[1]'', Ev_findById ''wnd[1]/usr/btnOK'']))"
    by simp
  from handle_popup_swallows [where r = ?r and w = "()" and popup = "''wnd[1]''" and ?w1.0 = "()"
      and button_id = "''wnd[0]''" and btn = "''wnd[0]''" and ?w2.0 = "()" and ?w3.0 = "()"
      and tr = "[]"]
    present other pressed
  have third: "handle_popup ?r ''wnd[0]'' True ((), [])
     = (Inr True, ((), [Ev_findById ''wnd[1]'', Ev_findById ''wnd[0]'', Ev_press ''wnd[0]'']))"
    by simp
  from handle_popup_swallows [where r = "mock_remote plain_screen" and w = "()"
      and button_id = "''wnd[1]/tbar[0]/btn[0]''" and tr = "[]" and e' = "ComError ''wnd[1]''"
      and ?w1' = "()"] absent
  have fourth: "handle_popup (mock_remote plain_screen) ''wnd[1]/tbar[0]/btn[0]'' True ((), [])
     = (Inr False, ((), [Ev_findById ''wnd[1]'']))"
    by simp
  from handle_popup_swallows [where r = ?r and w = "()"
      and button_id = "''wnd[1]/tbar[0]/btn[0]''" and btn = "''wnd[1]/tbar[0]/btn[0]''"
      and ?w2.0 = "()" and e = "ComError ''wnd[1]/tbar[0]/btn[0]''" and ?w3.0 = "()" and tr = "[]"]
    button fails
  have fifth: "handle_popup ?r ''wnd[1]/tbar[0]/btn[0]'' False ((), [])
     = (Inr False,
        ((), [Ev_findById ''wnd[1]/tbar[0]/btn[0]'', Ev_press ''wnd[1]/tbar[0]/btn[0]'']))"
    by simp
  from handle_popup_swallows [where r = ?r and w = "()" and button_id = "''wnd[1]/usr/btnOK''"
      and ?w2.0 = "()" and e = "ComError ''wnd[1]/usr/btnOK''" and tr = "[]"]
    no_button
  have sixth: "handle_popup ?r ''wnd[1]/usr/btnOK'' False ((), [])
     = (Inr False, ((), [Ev_findById ''wnd[1]/usr/btnOK'']))"
    by simp
  from handle_popup_swallows [where r = ?r and w = "()" and button_id = "''wnd[0]''"
      and btn = "''wnd[0]''" and ?w2.0 = "()" and ?w3.0 = "()" and tr = "[]"]
    other pressed
  have seventh: "handle_popup ?r ''wnd[0]'' False ((), [])
     = (Inr True, ((), [Ev_findById ''wnd[0]'', Ev_press ''wnd[0]'']))"
    by simp
  from first second third fourth fifth sixth seventh show ?thesis by simp
qed

subsection \<open>Session locking\<close>

text \<open>
  Claim C6. For every protected block executed under the scoped UI-lock context manager
  \<^verbatim>\<open>locked()\<close> (that is, once \<^verbatim>\<open>lock_ui\<close> has returned), the unlock operation executes
  exactly once on every exit path: whatever the block's outcome \<open>res\<close>, a value or an
  exception, the trace after \<^verbatim>\<open>locked\<close> is the trace the block left, followed by one
  \<^verbatim>\<open>UnlockSessionUI\<close> call. The outcome of the block is passed on, unless the unlock call
  itself raises.
\<close>

theorem locked_unlocks_exactly_once:
  assumes "lock_ui r s = (Inr (), s1)" and "block s1 = (res, (w2, tr2))"
  shows "snd (snd (locked r block s)) = tr2 @ [Ev_UnlockSessionUI]
       \<and> (case on_UnlockSessionUI r w2 of
            (Inl e, w3) \<Rightarrow> locked r block s = (Inl e, (w3, tr2 @ [Ev_UnlockSessionUI]))
          | (Inr u, w3) \<Rightarrow> locked r block s = (res, (w3, tr2 @ [Ev_UnlockSessionUI])))"
  using assms
  by (simp add: locked_def unlock_ui_def UnlockSessionUI_def sap_defs split: prod.splits sum.splits)

theorem locked_unlocks_exactly_once_witness:
  "locked (mock_remote plain_screen) (throw (ValueError ''boom'')) ((), [])
     = (Inl (ValueError ''boom'') :: error + unit, ((), [Ev_LockSessionUI, Ev_UnlockSessionUI]))
 \<and> locked (mock_remote plain_screen) (press (mock_remote plain_screen) ''btn'') ((), [])
     = (Inr (), ((), [Ev_LockSessionUI, Ev_press ''btn'', Ev_UnlockSessionUI]))"
proof -
  have lock: "lock_ui (mock_remote plain_screen) ((), []) = (Inr (), ((), [Ev_LockSessionUI]))"
    by (simp add: lock_ui_def LockSessionUI_def remote_call_def mock_remote_def)
  have raising: "throw (ValueError ''boom'') ((), [Ev_LockSessionUI :: string event])
      = (Inl (ValueError ''boom'') :: error + unit, ((), [Ev_LockSessionUI]))"
    by (simp add: throw_def)
  have normal: "press (mock_remote plain_screen) ''btn'' ((), [Ev_LockSessionUI])
      = (Inr (), ((), [Ev_LockSessionUI, Ev_press ''btn'']))"
    by (simp add: press_def remote_call_def mock_remote_def plain_screen_def)
  have unlock: "on_UnlockSessionUI (mock_remote plain_screen) () = (Inr (), ())"
    by (simp add: mock_remote_def)
  from locked_unlocks_exactly_once [where block = "throw (ValueError ''boom'')", OF lock raising]
    unlock
  have first: "locked (mock_remote plain_screen) (throw (ValueError ''boom'')) ((), [])
     = (Inl (ValueError ''boom'') :: error + unit, ((), [Ev_LockSessionUI, Ev_UnlockSessionUI]))"
    by simp
  from locked_unlocks_exactly_once
    [where block = "press (mock_remote plain_screen) ''btn''", OF lock normal] unlock
  have second: "locked (mock_remote plain_screen) (press (mock_remote plain_screen) ''btn'') ((), [])
     = (Inr (), ((), [Ev_LockSessionUI, Ev_press ''btn'', Ev_UnlockSessionUI]))"
    by simp
  from first second show ?thesis by simp
qed

subsection \<open>Grid reader\<close>

lemma read_cell_step:
  "try_except (bind (GetCellValue r g row col) (\<lambda>v. ret (AList.update col v record)))
      (\<lambda>e. ret (AList.update col [] record)) (w, tr)
   = (Inr (AList.update col (case fst (on_GetCellValue r g row col w) of Inl e \<Rightarrow> [] | Inr v \<Rightarrow> v) record),
      (snd (on_GetCellValue r g row col w), tr @ [Ev_GetCellValue g row col]))"
  by (simp add: GetCellValue_def sap_defs split: prod.splits sum.splits)

lemma read_cells_Cons:
  "read_cells r g row (col # cols) record (w, tr)
   = read_cells r g row cols
       (AList.update col (case fst (on_GetCellValue r g row col w) of Inl e \<Rightarrow> [] | Inr v \<Rightarrow> v) record)
       (snd (on_GetCellValue r g row col w), tr @ [Ev_GetCellValue g row col])"
  by (simp only: read_cells.simps) (subst bind_def, simp only: read_cell_step, simp)

lemma read_cells_total:
  "\<exists>rec' w'. read_cells r g row cols record (w, tr)
      = (Inr rec', (w', tr @ map (Ev_GetCellValue g row) cols))"
proof (induction cols arbitrary: "record" w tr)
  case Nil
  show ?case by (simp add: ret_def)
next
  case (Cons col cols)
  show ?case
    using Cons.IH [of "AList.update col (case fst (on_GetCellValue r g row col w) of Inl e \<Rightarrow> [] | Inr v \<Rightarrow> v) record"
        "snd (on_GetCellValue r g row col w)" "tr @ [Ev_GetCellValue g row col]"]
    by (simp only: read_cells_Cons) simp
qed

lemma read_cells_keys:
  "read_cells r g row cols record s = (Inr rec', s') \<Longrightarrow>
     fst ` set rec' = fst ` set record \<union> set cols"
proof (induction cols arbitrary: "record" s)
  case Nil
  then show ?case by (simp add: ret_def)
next
  case (Cons col cols)
  obtain w tr where s: "s = (w, tr)" by (cases s)
  let ?rec = "AList.update col (case fst (on_GetCellValue r g row col w) of Inl e \<Rightarrow> [] | Inr v \<Rightarrow> v) record"
  from Cons.prems have run: "read_cells r g row cols ?rec
       (snd (on_GetCellValue r g row col w), tr @ [Ev_GetCellValue g row col]) = (Inr rec', s')"
    unfolding s read_cells_Cons by simp
  have "fst ` set rec' = fst ` set ?rec \<union> set cols"
    by (rule Cons.IH [OF run])
  also have "fst ` set ?rec = {col} \<union> fst ` set record"
    by (rule dom_update)
  finally show ?case by auto
qed

lemma read_cells_distinct:
  "read_cells r g row cols record s = (Inr rec', s') \<Longrightarrow> distinct (map fst record) \<Longrightarrow>
     distinct (map fst rec')"
proof (induction cols arbitrary: "record" s)
  case Nil
  then show ?case by (simp add: ret_def)
next
  case (Cons col cols)
  obtain w tr where s: "s = (w, tr)" by (cases s)
  let ?rec = "AList.update col (case fst (on_GetCellValue r g row col w) of Inl e \<Rightarrow> [] | Inr v \<Rightarrow> v) record"
  from Cons.prems have run: "read_cells r g row cols ?rec
       (snd (on_GetCellValue r g row col w), tr @ [Ev_GetCellValue g row col]) = (Inr rec', s')"
    unfolding s read_cells_Cons by simp
  from Cons.prems have "distinct (map fst ?rec)"
    by (simp add: distinct_update)
  then show ?case by (rule Cons.IH [OF run])
qed

lemma read_cells_order:
  "read_cells r g row cols record s = (Inr rec', s') \<Longrightarrow> distinct cols \<Longrightarrow>
     set cols \<inter> fst ` set record = {} \<Longrightarrow> map fst rec' = map fst record @ cols"
proof (induction cols arbitrary: "record" s)
  case Nil
  then show ?case by (simp add: ret_def)
next
  case (Cons col cols)
  obtain w tr where s: "s = (w, tr)" by (cases s)
  let ?rec = "AList.update col (case fst (on_GetCellValue r g row col w) of Inl e \<Rightarrow> [] | Inr v \<Rightarrow> v) record"
  from Cons.prems have run: "read_cells r g row cols ?rec
       (snd (on_GetCellValue r g row col w), tr @ [Ev_GetCellValue g row col]) = (Inr rec', s')"
    unfolding s read_cells_Cons by simp
  from Cons.prems have fresh: "col \<notin> fst ` set record" by auto
  then have keys: "map fst ?rec = map fst record @ [col]"
    by (simp add: update_keys)
  from Cons.prems have "set cols \<inter> fst ` set ?rec = {}"
    by (auto simp add: dom_update)
  with Cons.IH [OF run] Cons.prems keys show ?case by simp
qed

lemma read_cells_value:
  "read_cells r g row cols record s = (Inr rec', s') \<Longrightarrow>
   \<forall>w. (case fst (on_GetCellValue r g row c w) of Inl e \<Rightarrow> [] | Inr v \<Rightarrow> v) = x \<Longrightarrow>
   c \<in> set cols \<or> map_of record c = Some x \<Longrightarrow> map_of rec' c = Some x"
proof (induction cols arbitrary: "record" s)
  case Nil
  then show ?case by (simp add: ret_def)
next
  case (Cons col cols)
  obtain w tr where s: "s = (w, tr)" by (cases s)
  let ?rec = "AList.update col (case fst (on_GetCellValue r g row col w) of Inl e \<Rightarrow> [] | Inr v \<Rightarrow> v) record"
  from Cons.prems have run: "read_cells r g row cols ?rec
       (snd (on_GetCellValue r g row col w), tr @ [Ev_GetCellValue g row col]) = (Inr rec', s')"
    unfolding s read_cells_Cons by simp
  have "c \<in> set cols \<or> map_of ?rec c = Some x"
  proof (cases "c = col")
    case True
    with Cons.prems(2) show ?thesis by (simp add: update_conv')
  next
    case False
    with Cons.prems(3) show ?thesis by (auto simp add: update_conv')
  qed
  with Cons.IH [OF run Cons.prems(2)] show ?case by simp
qed


lemma read_rows_total:
  "\<exists>new w'. read_rows r g rows cols data (w, tr)
       = (Inr (data @ new),
          (w', tr @ concat (map (\<lambda>row. map (Ev_GetCellValue g row) cols) rows)))
     \<and> list_all2 (\<lambda>row rec'. \<exists>s s'. read_cells r g row cols [] s = (Inr rec', s')) rows new"
proof (induction rows arbitrary: data w tr)
  case Nil
  show ?case by (simp add: ret_def)
next
  case (Cons row rows)
  obtain rec' w1 where cells: "read_cells r g row cols [] (w, tr)
      = (Inr rec', (w1, tr @ map (Ev_GetCellValue g row) cols))"
    using read_cells_total [of r g row cols "[]" w tr] by blast
  from Cons.IH [of "data @ [rec']" w1 "tr @ map (Ev_GetCellValue g row) cols"]
  obtain new w' where rest: "read_rows r g rows cols (data @ [rec']) (w1, tr @ map (Ev_GetCellValue g row) cols)
       = (Inr ((data @ [rec']) @ new),
          (w', (tr @ map (Ev_GetCellValue g row) cols)
               @ concat (map (\<lambda>row. map (Ev_GetCellValue g row) cols) rows)))"
    and rel: "list_all2 (\<lambda>row rec'. \<exists>s s'. read_cells r g row cols [] s = (Inr rec', s')) rows new"
    by blast
  have "read_rows r g (row # rows) cols data (w, tr)
      = (Inr (data @ rec' # new),
          (w', tr @ concat (map (\<lambda>row. map (Ev_GetCellValue g row) cols) (row # rows))))"
    by (simp only: read_rows.simps)
      (subst bind_def, simp only: cells prod.case sum.case, simp add: rest)
  moreover have "list_all2 (\<lambda>row rec'. \<exists>s s'. read_cells r g row cols [] s = (Inr rec', s'))
      (row # rows) (rec' # new)"
    using rel cells by auto
  ultimately show ?case by blast
qed

lemma grid_read_all_run:
  assumes cols: "(columns_arg = Some columns \<and> w0 = w)
      \<or> (columns_arg = None \<and> on_ColumnOrder r grid w = (Inr columns, w0))"
    and rc: "on_RowCount r grid w0 = (Inr R, w1)"
  shows "\<exists>data w'. grid_read_all r grid columns_arg max_rows (w, tr)
       = (Inr data,
          (w', tr @ (if columns_arg = None then [Ev_ColumnOrder grid] else [])
                  @ Ev_RowCount grid
                  # concat (map (\<lambda>row. map (Ev_GetCellValue grid row) columns)
                      (py_range (if max_rows > 0 then min R max_rows else R)))))
     \<and> list_all2 (\<lambda>row rec'. \<exists>s s'. read_cells r grid row columns [] s = (Inr rec', s'))
          (py_range (if max_rows > 0 then min R max_rows else R)) data"
proof -
  let ?pre = "tr @ (if columns_arg = None then [Ev_ColumnOrder grid] else [])"
  let ?rows = "py_range (if max_rows > 0 then min R max_rows else R)"
  have enum: "(case columns_arg of None \<Rightarrow> grid_get_columns r grid | Some cs \<Rightarrow> ret cs) (w, tr)
      = (Inr columns, (w0, ?pre))"
    using cols by (auto simp add: grid_get_columns_def get_ColumnOrder_def remote_call_def ret_def)
  have count: "get_RowCount r grid (w0, ?pre) = (Inr R, (w1, ?pre @ [Ev_RowCount grid]))"
    using rc by (simp add: get_RowCount_def remote_call_def)
  have unfold: "grid_read_all r grid columns_arg max_rows (w, tr)
      = read_rows r grid ?rows columns [] (w1, ?pre @ [Ev_RowCount grid])"
    unfolding grid_read_all_def
    by (subst bind_def, simp only: enum prod.case sum.case,
        subst bind_def, simp only: count prod.case sum.case)
  from read_rows_total [of r grid ?rows columns "[]" w1 "?pre @ [Ev_RowCount grid]"]
  show ?thesis unfolding unfold by simp
qed

text \<open>
  Claim C7. For every grid with row count \<open>R\<close> and every \<^verbatim>\<open>max_rows\<close> argument,
  \<^verbatim>\<open>grid_read_all\<close> reads exactly \<open>min(R, max_rows)\<close> rows when \<^verbatim>\<open>max_rows > 0\<close> and exactly
  \<open>R\<close> rows when \<^verbatim>\<open>max_rows = 0\<close> (also when it is negative). The column identifiers are
  fixed first: \<^verbatim>\<open>ColumnOrder\<close> is read once, before \<^verbatim>\<open>RowCount\<close> and before any cell, when
  the caller passes no column list; then the cells are fetched row by row, each row over
  the same column list.
\<close>

theorem grid_read_all_row_count:
  assumes cols: "(columns_arg = Some columns \<and> w0 = w)
      \<or> (columns_arg = None \<and> on_ColumnOrder r grid w = (Inr columns, w0))"
    and rc: "on_RowCount r grid w0 = (Inr R, w1)"
  shows "\<exists>data w'. grid_read_all r grid columns_arg max_rows (w, tr)
       = (Inr data,
          (w', tr @ (if columns_arg = None then [Ev_ColumnOrder grid] else [])
                  @ Ev_RowCount grid
                  # concat (map (\<lambda>row. map (Ev_GetCellValue grid (int row)) columns)
                      [0..<length data])))
     \<and> (max_rows > 0 \<longrightarrow> length data = nat (min R max_rows))
     \<and> (max_rows \<le> 0 \<longrightarrow> length data = nat R)"
proof -
  from grid_read_all_run [OF cols rc, of max_rows tr]
  obtain data w' where run: "grid_read_all r grid columns_arg max_rows (w, tr)
       = (Inr data,
          (w', tr @ (if columns_arg = None then [Ev_ColumnOrder grid] else [])
                  @ Ev_RowCount grid
                  # concat (map (\<lambda>row. map (Ev_GetCellValue grid row) columns)
                      (py_range (if max_rows > 0 then min R max_rows else R)))))"
    and rel: "list_all2 (\<lambda>row rec'. \<exists>s s'. read_cells r grid row columns [] s = (Inr rec', s'))
          (py_range (if max_rows > 0 then min R max_rows else R)) data"
    by blast
  from rel have len: "length data = nat (if max_rows > 0 then min R max_rows else R)"
    by (simp add: list_all2_lengthD [symmetric] py_range_def)
  have "py_range (if max_rows > 0 then min R max_rows else R) = map int [0..<length data]"
    by (simp add: py_range_def len)
  with run len show ?thesis by (simp add: comp_def)
qed

theorem grid_read_all_row_count_witness:
  "(\<exists>data w'. grid_read_all (mock_remote broken_column_grid) ''grid'' None 2 ((), [])
       = (Inr data,
          (w', [Ev_ColumnOrder ''grid'', Ev_RowCount ''grid'',
                Ev_GetCellValue ''grid'' 0 ''BUKRS'', Ev_GetCellValue ''grid'' 0 ''K'',
                Ev_GetCellValue ''grid'' 1 ''BUKRS'', Ev_GetCellValue ''grid'' 1 ''K'']))
      \<and> length data = 2)
 \<and> (\<exists>data w'. grid_read_all (mock_remote broken_column_grid) ''grid'' (Some [''BUKRS'']) 0 ((), [])
       = (Inr data,
          (w', [Ev_RowCount ''grid'', Ev_GetCellValue ''grid'' 0 ''BUKRS'',
                Ev_GetCellValue ''grid'' 1 ''BUKRS'', Ev_GetCellValue ''grid'' 2 ''BUKRS'']))
      \<and> length data = 3)"
proof -
  have co: "on_ColumnOrder (mock_remote broken_column_grid) ''grid'' () = (Inr [''BUKRS'', ''K''], ())"
    by (simp add: mock_remote_def broken_column_grid_def)
  have rc: "on_RowCount (mock_remote broken_column_grid) ''grid'' () = (Inr 3, ())"
    by (simp add: mock_remote_def broken_column_grid_def)
  from grid_read_all_row_count [where columns_arg = None and columns = "[''BUKRS'', ''K'']"
      and w = "()" and ?w0.0 = "()" and max_rows = 2 and tr = "[]", OF _ rc] co
  obtain data w' where "grid_read_all (mock_remote broken_column_grid) ''grid'' None 2 ((), [])
       = (Inr data,
          (w', [Ev_ColumnOrder ''grid'', Ev_RowCount ''grid'']
                @ concat (map (\<lambda>row. map (Ev_GetCellValue ''grid'' (int row)) [''BUKRS'', ''K''])
                      [0..<length data])))"
    and "length data = 2"
    by auto
  then have capped: "\<exists>data w'. grid_read_all (mock_remote broken_column_grid) ''grid'' None 2 ((), [])
       = (Inr data,
          (w', [Ev_ColumnOrder ''grid'', Ev_RowCount ''grid'',
                Ev_GetCellValue ''grid'' 0 ''BUKRS'', Ev_GetCellValue ''grid'' 0 ''K'',
                Ev_GetCellValue ''grid'' 1 ''BUKRS'', Ev_GetCellValue ''grid'' 1 ''K'']))
      \<and> length data = 2"
    by (simp add: upt_rec [of 0] upt_rec [of 1] upt_rec [of 2] numeral_2_eq_2)
  from grid_read_all_row_count [where columns_arg = "Some [''BUKRS'']" and columns = "[''BUKRS'']"
      and w = "()" and ?w0.0 = "()" and max_rows = 0 and tr = "[]", OF _ rc]
  obtain data w' where "grid_read_all (mock_remote broken_column_grid) ''grid'' (Some [''BUKRS'']) 0 ((), [])
       = (Inr data,
          (w', [Ev_RowCount ''grid'']
                @ concat (map (\<lambda>row. map (Ev_GetCellValue ''grid'' (int row)) [''BUKRS''])
                      [0..<length data])))"
    and "length data = 3"
    by auto
  then have unbounded: "\<exists>data w'. grid_read_all (mock_remote broken_column_grid) ''grid'' (Some [''BUKRS'']) 0 ((), [])
       = (Inr data,
          (w', [Ev_RowCount ''grid'', Ev_GetCellValue ''grid'' 0 ''BUKRS'',
                Ev_GetCellValue ''grid'' 1 ''BUKRS'', Ev_GetCellValue ''grid'' 2 ''BUKRS'']))
      \<and> length data = 3"
    by (simp add: upt_rec [of 0] upt_rec [of 1] upt_rec [of 2] upt_rec [of 3] numeral_3_eq_3)
  from capped unbounded show ?thesis by blast
qed

text \<open>
  Claim C3. For every grid with \<open>N\<close> rows and a column list of \<open>M\<close> column identifiers
  (passed by the caller, or enumerated from \<^verbatim>\<open>ColumnOrder\<close>), \<^verbatim>\<open>grid_read_all\<close> returns
  exactly \<open>N\<close> row records when no max-rows cap applies, in row order. Each record has
  exactly the column identifiers as its keys, each once (in the order of the list when the
  list has no duplicates, so \<open>M\<close> keys). A cell whose read fails contributes the empty
  string for its key and a cell whose read succeeds contributes its value, and the row is
  emitted either way; in particular a column \<open>K\<close> that always fails is mapped to the empty
  string in all \<open>N\<close> records.
\<close>

theorem grid_read_all_records:
  assumes cols: "(columns_arg = Some columns \<and> w0 = w)
      \<or> (columns_arg = None \<and> on_ColumnOrder r grid w = (Inr columns, w0))"
    and rc: "on_RowCount r grid w0 = (Inr N, w1)"
    and nocap: "max_rows \<le> 0 \<or> N \<le> max_rows"
  shows "\<exists>data s'. grid_read_all r grid columns_arg max_rows (w, tr) = (Inr data, s')
     \<and> length data = nat N
     \<and> (\<forall>i<nat N.
           fst ` set (data ! i) = set columns \<and> distinct (map fst (data ! i))
         \<and> (distinct columns \<longrightarrow> map fst (data ! i) = columns)
         \<and> (\<forall>c\<in>set columns. \<forall>x.
              (\<forall>w'. (case fst (on_GetCellValue r grid (int i) c w') of Inl e \<Rightarrow> [] | Inr v \<Rightarrow> v) = x)
              \<longrightarrow> map_of (data ! i) c = Some x))
     \<and> (\<forall>K\<in>set columns. (\<forall>row w'. isl (fst (on_GetCellValue r grid row K w')))
          \<longrightarrow> (\<forall>rec'\<in>set data. length rec' = card (set columns) \<and> map_of rec' K = Some []))"
proof -
  let ?n = "if max_rows > 0 then min N max_rows else N"
  from nocap have n: "?n = N" by auto
  from grid_read_all_run [OF cols rc, of max_rows tr]
  obtain data s' where run: "grid_read_all r grid columns_arg max_rows (w, tr) = (Inr data, s')"
    and rel: "list_all2 (\<lambda>row rec'. \<exists>s s'. read_cells r grid row columns [] s = (Inr rec', s'))
          (py_range N) data"
    unfolding n by blast
  from rel have len: "length data = nat N"
    by (simp add: list_all2_lengthD [symmetric] py_range_def)
  have row: "\<exists>s s'. read_cells r grid (int i) columns [] s = (Inr (data ! i), s')" if "i < nat N" for i
    using list_all2_nthD [OF rel, of i] that by (simp add: py_range_def)
  have each: "fst ` set (data ! i) = set columns \<and> distinct (map fst (data ! i))
         \<and> (distinct columns \<longrightarrow> map fst (data ! i) = columns)
         \<and> (\<forall>c\<in>set columns. \<forall>x.
              (\<forall>w'. (case fst (on_GetCellValue r grid (int i) c w') of Inl e \<Rightarrow> [] | Inr v \<Rightarrow> v) = x)
              \<longrightarrow> map_of (data ! i) c = Some x)" if "i < nat N" for i
  proof -
    from row [OF that] obtain s s' where
      cells: "read_cells r grid (int i) columns [] s = (Inr (data ! i), s')" by blast
    have "fst ` set (data ! i) = set columns"
      using read_cells_keys [OF cells] by simp
    moreover have "distinct (map fst (data ! i))"
      using read_cells_distinct [OF cells] by simp
    moreover have "distinct columns \<longrightarrow> map fst (data ! i) = columns"
      using read_cells_order [OF cells] by simp
    moreover have "\<forall>c\<in>set columns. \<forall>x.
              (\<forall>w'. (case fst (on_GetCellValue r grid (int i) c w') of Inl e \<Rightarrow> [] | Inr v \<Rightarrow> v) = x)
              \<longrightarrow> map_of (data ! i) c = Some x"
      using read_cells_value [OF cells] by blast
    ultimately show ?thesis by blast
  qed
  have column: "length rec' = card (set columns) \<and> map_of rec' K = Some []"
    if K: "K \<in> set columns" and fails: "\<forall>row w'. isl (fst (on_GetCellValue r grid row K w'))"
      and mem: "rec' \<in> set data" for K rec'
  proof -
    from mem len obtain i where i: "i < nat N" and rec': "rec' = data ! i"
      by (auto simp add: in_set_conv_nth)
    have empty: "\<forall>w'. (case fst (on_GetCellValue r grid (int i) K w') of Inl e \<Rightarrow> [] | Inr v \<Rightarrow> v) = []"
    proof
      fix w'
      from fails obtain e where "fst (on_GetCellValue r grid (int i) K w') = Inl e"
        unfolding isl_def by blast
      then show "(case fst (on_GetCellValue r grid (int i) K w') of Inl e \<Rightarrow> [] | Inr v \<Rightarrow> v) = []"
        by simp
    qed
    from each [OF i] have keys: "fst ` set rec' = set columns" and dist: "distinct (map fst rec')"
      unfolding rec' by blast+
    have "length rec' = card (set (map fst rec'))"
      using distinct_card [OF dist] by simp
    with keys have "length rec' = card (set columns)" by simp
    moreover from each [OF i] K empty have "map_of rec' K = Some []"
      unfolding rec' by blast
    ultimately show ?thesis by blast
  qed
  from run len each column show ?thesis by blast
qed

theorem grid_read_all_records_witness:
  "\<exists>data s'. grid_read_all (mock_remote broken_column_grid) ''grid'' (Some [''BUKRS'', ''K'']) 0 ((), [])
       = (Inr data, s')
     \<and> length data = 3
     \<and> (\<forall>i<3. map fst (data ! i) = [''BUKRS'', ''K''] \<and> map_of (data ! i) ''BUKRS'' = Some (str_int (int i)))
     \<and> (\<forall>rec'\<in>set data. length rec' = 2 \<and> map_of rec' ''K'' = Some [])"
proof -
  have rc: "on_RowCount (mock_remote broken_column_grid) ''grid'' () = (Inr 3, ())"
    by (simp add: mock_remote_def broken_column_grid_def)
  have fails: "\<forall>row w'. isl (fst (on_GetCellValue (mock_remote broken_column_grid) ''grid'' row ''K'' w'))"
    by (simp add: mock_remote_def broken_column_grid_def)
  have reads: "\<forall>w'. (case fst (on_GetCellValue (mock_remote broken_column_grid) ''grid'' (int i) ''BUKRS'' w')
        of Inl e \<Rightarrow> [] | Inr v \<Rightarrow> v) = str_int (int i)" for i
    by (simp add: mock_remote_def broken_column_grid_def)
  from grid_read_all_records [where columns_arg = "Some [''BUKRS'', ''K'']"
      and columns = "[''BUKRS'', ''K'']" and ?w0.0 = "()" and w = "()" and max_rows = 0 and tr = "[]", OF _ rc]
  obtain data s' where run: "grid_read_all (mock_remote broken_column_grid) ''grid'' (Some [''BUKRS'', ''K'']) 0 ((), [])
       = (Inr data, s')"
    and len: "length data = 3"
    and each: "\<forall>i<3. (distinct [''BUKRS'', ''K''] \<longrightarrow> map fst (data ! i) = [''BUKRS'', ''K''])
         \<and> (\<forall>c\<in>set [''BUKRS'', ''K'']. \<forall>x.
              (\<forall>w'. (case fst (on_GetCellValue (mock_remote broken_column_grid) ''grid'' (int i) c w') of Inl e \<Rightarrow> [] | Inr v \<Rightarrow> v) = x)
              \<longrightarrow> map_of (data ! i) c = Some x)"
    and column: "\<forall>K\<in>set [''BUKRS'', ''K'']. (\<forall>row w'. isl (fst (on_GetCellValue (mock_remote broken_column_grid) ''grid'' row K w')))
          \<longrightarrow> (\<forall>rec'\<in>set data. length rec' = card (set [''BUKRS'', ''K'']) \<and> map_of rec' K = Some [])"
    by auto
  from each reads have "\<forall>i<3. map fst (data ! i) = [''BUKRS'', ''K''] \<and> map_of (data ! i) ''BUKRS'' = Some (str_int (int i))"
    by simp
  moreover from column fails have "\<forall>rec'\<in>set data. length rec' = 2 \<and> map_of rec' ''K'' = Some []"
    by simp
  ultimately show ?thesis using run len by blast
qed

subsection \<open>Distinct values\<close>

lemma distinct_loop_Cons:
  "distinct_loop r g col (row # rows) values (w, tr)
   = (case fst (on_GetCellValue r g row col w) of
        Inl e \<Rightarrow> (Inl e, (snd (on_GetCellValue r g row col w), tr @ [Ev_GetCellValue g row col]))
      | Inr v \<Rightarrow> distinct_loop r g col rows (insert (strip v) values)
                  (snd (on_GetCellValue r g row col w), tr @ [Ev_GetCellValue g row col]))"
  by (simp add: bind_def GetCellValue_def remote_call_def split: prod.splits sum.splits)

lemma distinct_loop_reads:
  assumes "\<forall>row\<in>set rows. \<forall>w'. fst (on_GetCellValue r g row col w') = Inr (cellv row)"
  shows "\<exists>w'. distinct_loop r g col rows values (w, tr)
      = (Inr (values \<union> (\<lambda>row. strip (cellv row)) ` set rows),
         (w', tr @ map (\<lambda>row. Ev_GetCellValue g row col) rows))"
  using assms
proof (induction rows arbitrary: "values" w tr)
  case Nil
  show ?case by (simp add: ret_def)
next
  case (Cons row rows)
  from Cons.prems have here: "fst (on_GetCellValue r g row col w) = Inr (cellv row)"
    and later: "\<forall>row\<in>set rows. \<forall>w'. fst (on_GetCellValue r g row col w') = Inr (cellv row)"
    by simp_all
  from Cons.IH [OF later, of "insert (strip (cellv row)) values"
      "snd (on_GetCellValue r g row col w)" "tr @ [Ev_GetCellValue g row col]"]
  show ?case unfolding distinct_loop_Cons here by simp
qed

lemma distinct_loop_raises:
  assumes "row \<in> set rows" and "\<forall>w'. isl (fst (on_GetCellValue r g row col w'))"
  shows "\<exists>e s' row' w'. distinct_loop r g col rows values (w, tr) = (Inl e, s')
      \<and> row' \<in> set rows \<and> fst (on_GetCellValue r g row' col w') = Inl e"
  using assms
proof (induction rows arbitrary: "values" w tr)
  case Nil
  then show ?case by simp
next
  case (Cons row0 rows)
  show ?case
  proof (cases "fst (on_GetCellValue r g row0 col w)")
    case (Inl e)
    then show ?thesis unfolding distinct_loop_Cons by auto
  next
    case (Inr v)
    have "row \<noteq> row0"
    proof
      assume "row = row0"
      with Cons.prems(2) have "isl (fst (on_GetCellValue r g row0 col w))" by blast
      with Inr show False by simp
    qed
    with Cons.prems have "row \<in> set rows" by simp
    from Cons.IH [OF this Cons.prems(2), of "insert (strip v) values"
        "snd (on_GetCellValue r g row0 col w)" "tr @ [Ev_GetCellValue g row0 col]"]
    show ?thesis unfolding distinct_loop_Cons Inr by auto
  qed
qed

lemma strip_trimmed:
  "strip s = [] \<or> (\<not> isspace (hd (strip s)) \<and> \<not> isspace (last (strip s)))"
proof (cases "strip s = []")
  case True
  then show ?thesis by simp
next
  case False
  let ?t = "rev (dropWhile isspace s)"
  from False have ne: "dropWhile isspace ?t \<noteq> []" by (simp add: strip_def)
  then have "\<not> isspace (hd (dropWhile isspace ?t))" by (rule hd_dropWhile)
  then have last: "\<not> isspace (last (strip s))"
    using ne by (simp add: strip_def last_rev)
  have "dropWhile isspace s \<noteq> []"
  proof
    assume "dropWhile isspace s = []"
    then have "dropWhile isspace ?t = []" by (simp del: dropWhile_eq_Nil_conv)
    with ne show False by simp
  qed
  then have first: "\<not> isspace (hd (dropWhile isspace s))" by (rule hd_dropWhile)
  have "dropWhile isspace s = rev ?t" by simp
  also have "\<dots> = rev (dropWhile isspace ?t) @ rev (takeWhile isspace ?t)"
    by (metis rev_append takeWhile_dropWhile_id)
  finally have "dropWhile isspace s = strip s @ rev (takeWhile isspace ?t)"
    by (simp add: strip_def)
  with False first have "\<not> isspace (hd (strip s))" by (metis hd_append2)
  with last show ?thesis by blast
qed

text \<open>
  Claim C4. For every grid and column whose cells can all be read, \<^verbatim>\<open>grid_get_distinct\<close>
  returns the set of that column's cell values over all rows, each value trimmed of
  surrounding whitespace, deduplicated, and returned as a sorted sequence. The witness is
  the column \<^verbatim>\<open>["A ", "A", " A", "B"]\<close>, which yields \<^verbatim>\<open>["A", "B"]\<close>.
\<close>

theorem grid_get_distinct_sorted_set:
  assumes rc: "on_RowCount r grid w = (Inr N, w1)"
    and reads: "\<forall>i<nat N. \<forall>w'. fst (on_GetCellValue r grid (int i) column w') = Inr (cellv i)"
  shows "\<exists>xs s'. grid_get_distinct r grid column (w, tr) = (Inr xs, s')
     \<and> xs = sorted_list_of_set ((\<lambda>i. strip (cellv i)) ` {..<nat N})
     \<and> sorted xs \<and> distinct xs
     \<and> set xs = (\<lambda>i. strip (cellv i)) ` {..<nat N}
     \<and> (\<forall>x\<in>set xs. x = [] \<or> (\<not> isspace (hd x) \<and> \<not> isspace (last x)))"
proof -
  let ?vals = "(\<lambda>i. strip (cellv i)) ` {..<nat N}"
  let ?xs = "sorted_list_of_set ?vals"
  have count: "get_RowCount r grid (w, tr) = (Inr N, (w1, tr @ [Ev_RowCount grid]))"
    using rc by (simp add: get_RowCount_def remote_call_def)
  have "\<forall>row\<in>set (py_range N). \<forall>w'.
      fst (on_GetCellValue r grid row column w') = Inr ((\<lambda>row. cellv (nat row)) row)"
    using reads by (auto simp add: py_range_def)
  from distinct_loop_reads [OF this, of "{}" w1 "tr @ [Ev_RowCount grid]"]
  obtain w' where loop: "distinct_loop r grid column (py_range N) {} (w1, tr @ [Ev_RowCount grid])
      = (Inr ((\<lambda>row. strip (cellv (nat row))) ` set (py_range N)),
         (w', (tr @ [Ev_RowCount grid]) @ map (\<lambda>row. Ev_GetCellValue grid row column) (py_range N)))"
    by auto
  have "set (py_range N) = int ` {..<nat N}"
    by (auto simp add: py_range_def)
  then have vals: "(\<lambda>row. strip (cellv (nat row))) ` set (py_range N) = ?vals"
    by (simp add: image_image)
  have run: "grid_get_distinct r grid column (w, tr)
      = (Inr ?xs, (w', (tr @ [Ev_RowCount grid]) @ map (\<lambda>row. Ev_GetCellValue grid row column) (py_range N)))"
    unfolding grid_get_distinct_def
    by (subst bind_def, simp only: count prod.case sum.case,
        subst bind_def, simp only: loop prod.case sum.case vals, simp add: ret_def)
  have fin: "finite ?vals" by simp
  have "sorted ?xs" and "distinct ?xs" and set: "set ?xs = ?vals"
    using fin by simp_all
  moreover have "\<forall>x\<in>set ?xs. x = [] \<or> (\<not> isspace (hd x) \<and> \<not> isspace (last x))"
    unfolding set using strip_trimmed by auto
  ultimately show ?thesis using run by blast
qed

lemma padded_values_stripped:
  "sorted_list_of_set ((\<lambda>i. strip ([''A '', ''A'', '' A'', ''B''] ! i)) ` {..<nat 4}) = [''A'', ''B'']"
proof -
  have "{..<nat 4} = set [0, 1, 2, 3]"
    by (auto simp add: eval_nat_numeral less_Suc_eq)
  then have "(\<lambda>i. strip ([''A '', ''A'', '' A'', ''B''] ! i)) ` {..<nat 4}
      = set (map (\<lambda>i. strip ([''A '', ''A'', '' A'', ''B''] ! i)) [0, 1, 2, 3])"
    by (simp only: set_map)
  also have "map (\<lambda>i. strip ([''A '', ''A'', '' A'', ''B''] ! i)) [0, 1, 2, 3]
      = [''A'', ''A'', ''A'', ''B'']"
    by (simp add: strip_def isspace_def)
  finally show ?thesis
    by (simp only: sorted_list_of_set_sort_remdups) simp
qed

theorem grid_get_distinct_sorted_set_witness:
  "\<exists>s'. grid_get_distinct (mock_remote padded_values_grid) ''grid'' ''COL'' ((), [])
      = (Inr [''A'', ''B''], s')"
proof -
  have rc: "on_RowCount (mock_remote padded_values_grid) ''grid'' () = (Inr 4, ())"
    by (simp add: mock_remote_def padded_values_grid_def)
  have reads: "\<forall>i<nat 4. \<forall>w'. fst (on_GetCellValue (mock_remote padded_values_grid) ''grid'' (int i) ''COL'' w')
      = Inr ([''A '', ''A'', '' A'', ''B''] ! i)"
    by (simp add: mock_remote_def padded_values_grid_def)
  from grid_get_distinct_sorted_set [OF rc reads, of "[]"]
  show ?thesis unfolding padded_values_stripped by blast
qed

text \<open>
  Claim C10. \<^verbatim>\<open>grid_get_distinct\<close> has no per-cell fault tolerance: for any grid in which
  reading some cell of the requested column fails, the exception of a failed cell read of
  that column propagates to the caller instead of degrading that cell to an empty string,
  unlike \<^verbatim>\<open>grid_read_all\<close>, which on the same grid returns all rows with the empty string
  for that cell.
\<close>

theorem grid_get_distinct_propagates:
  assumes rc: "on_RowCount r grid w = (Inr N, w1)"
    and row: "0 \<le> row" "row < N"
    and fails: "\<forall>w'. isl (fst (on_GetCellValue r grid row column w'))"
  shows "(\<exists>e s' row' w'. grid_get_distinct r grid column (w, tr) = (Inl e, s')
            \<and> 0 \<le> row' \<and> row' < N \<and> fst (on_GetCellValue r grid row' column w') = Inl e)
       \<and> (\<exists>data s'. grid_read_all r grid (Some [column]) 0 (w, tr) = (Inr data, s')
            \<and> length data = nat N \<and> map_of (data ! nat row) column = Some [])"
proof
  have count: "get_RowCount r grid (w, tr) = (Inr N, (w1, tr @ [Ev_RowCount grid]))"
    using rc by (simp add: get_RowCount_def remote_call_def)
  from row have mem: "row \<in> set (py_range N)"
    by (auto simp add: py_range_def image_iff intro!: bexI [of _ "nat row"])
  from distinct_loop_raises [OF mem fails, of "{}" w1 "tr @ [Ev_RowCount grid]"]
  obtain e s' row' w' where loop:
      "distinct_loop r grid column (py_range N) {} (w1, tr @ [Ev_RowCount grid]) = (Inl e, s')"
    and row': "row' \<in> set (py_range N)"
    and e: "fst (on_GetCellValue r grid row' column w') = Inl e"
    by blast
  have "grid_get_distinct r grid column (w, tr) = (Inl e, s')"
    unfolding grid_get_distinct_def
    by (subst bind_def, simp only: count prod.case sum.case,
        subst bind_def, simp only: loop prod.case sum.case)
  moreover from row' have "0 \<le> row' \<and> row' < N"
    by (auto simp add: py_range_def)
  ultimately show "\<exists>e s' row' w'. grid_get_distinct r grid column (w, tr) = (Inl e, s')
      \<and> 0 \<le> row' \<and> row' < N \<and> fst (on_GetCellValue r grid row' column w') = Inl e"
    using e by blast
next
  from grid_read_all_run [where columns_arg = "Some [column]" and columns = "[column]"
      and ?w0.0 = w and w = w and max_rows = 0 and tr = tr, OF _ rc]
  obtain data s' where run: "grid_read_all r grid (Some [column]) 0 (w, tr) = (Inr data, s')"
    and rel: "list_all2 (\<lambda>row rec'. \<exists>s s'. read_cells r grid row [column] [] s = (Inr rec', s'))
          (py_range N) data"
    by auto
  from rel have len: "length data = nat N"
    by (simp add: list_all2_lengthD [symmetric] py_range_def)
  from row have "nat row < length (py_range N)" and "py_range N ! nat row = row"
    by (simp_all add: py_range_def)
  with list_all2_nthD [OF rel, of "nat row"]
  obtain s s'' where cells: "read_cells r grid row [column] [] s = (Inr (data ! nat row), s'')"
    by auto
  have empty: "\<forall>w'. (case fst (on_GetCellValue r grid row column w') of Inl e \<Rightarrow> [] | Inr v \<Rightarrow> v) = []"
  proof
    fix w'
    from fails obtain e where "fst (on_GetCellValue r grid row column w') = Inl e"
      unfolding isl_def by blast
    then show "(case fst (on_GetCellValue r grid row column w') of Inl e \<Rightarrow> [] | Inr v \<Rightarrow> v) = []"
      by simp
  qed
  have "map_of (data ! nat row) column = Some []"
    using read_cells_value [OF cells empty] by simp
  with run len show "\<exists>data s'. grid_read_all r grid (Some [column]) 0 (w, tr) = (Inr data, s')
      \<and> length data = nat N \<and> map_of (data ! nat row) column = Some []"
    by blast
qed

theorem grid_get_distinct_propagates_witness:
  "(\<exists>s'. grid_get_distinct (mock_remote broken_column_grid) ''grid'' ''K'' ((), [])
       = (Inl (ComError ''unreadable''), s'))
 \<and> (\<exists>data s'. grid_read_all (mock_remote broken_column_grid) ''grid'' (Some [''K'']) 0 ((), [])
       = (Inr data, s') \<and> length data = 3 \<and> map_of (data ! 1) ''K'' = Some [])"
proof -
  have rc: "on_RowCount (mock_remote broken_column_grid) ''grid'' () = (Inr 3, ())"
    by (simp add: mock_remote_def broken_column_grid_def)
  have fails: "\<forall>w'. isl (fst (on_GetCellValue (mock_remote broken_column_grid) ''grid'' 1 ''K'' w'))"
    by (simp add: mock_remote_def broken_column_grid_def)
  have only: "fst (on_GetCellValue (mock_remote broken_column_grid) ''grid'' row' ''K'' w') = Inl e
      \<Longrightarrow> e = ComError ''unreadable''" for row' w' e
    by (simp add: mock_remote_def broken_column_grid_def)
  from grid_get_distinct_propagates [OF rc _ _ fails, of "[]"] only
  show ?thesis by fastforce
qed

subsection \<open>Workflow helpers\<close>

lemmas session_defs =
  start_transaction_def send_vkey_def find_by_id_def set_field_def set_field_by_id_def
  set_checkbox_by_id_def get_statusbar_def check_statusbar_error_def press_dismiss_def
  handle_popup_def common_paths_def find_grid_def grid_get_columns_def py_range_def
  grid_read_all_def truthy_def

lemmas com_defs =
  StartTransaction_def findById_def findByName_def set_text_def set_selected_def press_def
  sendVKey_def get_Text_def get_MessageType_def get_ColumnOrder_def get_RowCount_def
  GetCellValue_def LockSessionUI_def UnlockSessionUI_def

lemmas report_defs =
  fill_field_def fill_selection_screen_def report_execute_def report_read_grid_def
  report_harvest_def run_transaction_report_def

lemmas se16h_defs =
  se16h_table_row_def se16h_selection_value_def se16h_execute_def se16h_read_grid_def
  se16h_harvest_def run_se16h_def

lemmas mock_defs =
  mock_remote_def silent_error_grid_def silent_abort_grid_def broken_column_grid_def
  stuck_popup_def plain_screen_def









lemma check_statusbar_error_reads:
  assumes sbar: "on_findById r ''wnd[0]/sbar'' w1 = (Inr sb, w2)"
    and msg_read: "on_Text r sb w2 = (Inr msg, w3)"
    and sev: "on_MessageType r sb w3 = (Inr ty, w4)"
  shows "check_statusbar_error r (w1, tr1)
      = (Inr (if ty = ''E'' \<or> ty = ''A'' then Some msg else None),
         (w4, tr1 @ [Ev_findById ''wnd[0]/sbar'', Ev_Text sb, Ev_MessageType sb]))"
  using assms
  by (simp add: check_statusbar_error_def get_statusbar_def findById_def get_Text_def
      get_MessageType_def sap_defs)

lemma report_harvest_short_circuit:
  assumes sbar: "on_findById r ''wnd[0]/sbar'' w1 = (Inr sb, w2)"
    and msg_read: "on_Text r sb w2 = (Inr msg, w3)"
    and sev: "on_MessageType r sb w3 = (Inr ty, w4)"
    and ty: "ty = ''E'' \<or> ty = ''A''" and msg: "msg \<noteq> []"
  shows "report_harvest r tcode read_columns max_rows (w1, tr1)
      = (Inr [], (w4, tr1 @ [Ev_findById ''wnd[0]/sbar'', Ev_Text sb, Ev_MessageType sb,
                            Ev_log_warning (tcode @ '' status: '' @ msg)]))"
  unfolding report_harvest_def
  by (subst bind_def)
    (use ty msg in \<open>simp add: check_statusbar_error_reads [OF sbar msg_read sev] truthy_def
      bind_def log_warning_def ret_def\<close>)

lemma se16h_harvest_short_circuit:
  assumes sbar: "on_findById r ''wnd[0]/sbar'' w1 = (Inr sb, w2)"
    and msg_read: "on_Text r sb w2 = (Inr msg, w3)"
    and sev: "on_MessageType r sb w3 = (Inr ty, w4)"
    and ty: "ty = ''E'' \<or> ty = ''A''" and msg: "msg \<noteq> []"
  shows "se16h_harvest r cfgs max_rows (w1, tr1)
      = (Inr [], (w4, tr1 @ [Ev_findById ''wnd[0]/sbar'', Ev_Text sb, Ev_MessageType sb,
                            Ev_log_warning (''SE16H status: '' @ msg)]))"
  unfolding se16h_harvest_def
  by (subst bind_def)
    (use ty msg in \<open>simp add: check_statusbar_error_reads [OF sbar msg_read sev] truthy_def
      bind_def log_warning_def ret_def\<close>)

text \<open>
  Claim C9. If the status bar reports severity Error or Abort but its message text is the
  empty string, \<^verbatim>\<open>check_statusbar_error\<close> returns that empty string, and the truthiness test
  of \<^verbatim>\<open>run_transaction_report\<close> on it does not short-circuit: from the state after the
  status readout the helper goes on to locate the grid, and when a grid is found the result
  of the helper is the result of reading it.
\<close>

theorem empty_error_text_reads_grid:
  assumes exec: "report_execute r tcode selection_fields execute_vkey s = (Inr popup, (w1, tr1))"
    and sbar: "on_findById r ''wnd[0]/sbar'' w1 = (Inr sb, w2)"
    and msg_read: "on_Text r sb w2 = (Inr [], w3)"
    and sev: "on_MessageType r sb w3 = (Inr ty, w4)"
    and ty: "ty = ''E'' \<or> ty = ''A''"
  shows "check_statusbar_error r (w1, tr1)
      = (Inr (Some []), (w4, tr1 @ [Ev_findById ''wnd[0]/sbar'', Ev_Text sb, Ev_MessageType sb]))
    \<and> run_transaction_report r tcode selection_fields execute_vkey read_columns max_rows s
      = report_read_grid r tcode read_columns max_rows
          (w4, tr1 @ [Ev_findById ''wnd[0]/sbar'', Ev_Text sb, Ev_MessageType sb])
    \<and> (\<forall>g s5. find_grid r ''wnd[0]/usr''
                (w4, tr1 @ [Ev_findById ''wnd[0]/sbar'', Ev_Text sb, Ev_MessageType sb])
              = (Inr (Some g), s5) \<longrightarrow>
          run_transaction_report r tcode selection_fields execute_vkey read_columns max_rows s
            = grid_read_all r g read_columns max_rows s5)"
proof -
  let ?tr = "tr1 @ [Ev_findById ''wnd[0]/sbar'', Ev_Text sb, Ev_MessageType sb]"
  have status: "check_statusbar_error r (w1, tr1) = (Inr (Some []), (w4, ?tr))"
    using check_statusbar_error_reads [OF sbar msg_read sev, of tr1] ty by simp
  have harvest: "report_harvest r tcode read_columns max_rows (w1, tr1)
      = report_read_grid r tcode read_columns max_rows (w4, ?tr)"
    unfolding report_harvest_def
    by (subst bind_def) (simp add: status truthy_def)
  have run: "run_transaction_report r tcode selection_fields execute_vkey read_columns max_rows s
      = report_read_grid r tcode read_columns max_rows (w4, ?tr)"
    unfolding run_transaction_report_def
    by (subst bind_def) (simp add: exec harvest)
  have "run_transaction_report r tcode selection_fields execute_vkey read_columns max_rows s
            = grid_read_all r g read_columns max_rows s5"
    if "find_grid r ''wnd[0]/usr'' (w4, ?tr) = (Inr (Some g), s5)" for g s5
    unfolding run report_read_grid_def
    by (subst bind_def) (simp add: that)
  with status run show ?thesis by blast
qed

theorem empty_error_text_reads_grid_witness:
  "check_statusbar_error (mock_remote silent_abort_grid)
     ((), [Ev_StartTransaction ''FBL1N'', Ev_findById ''wnd[0]'', Ev_sendVKey ''wnd[0]'' 8,
           Ev_findById ''wnd[1]''])
   = (Inr (Some []),
      ((), [Ev_StartTransaction ''FBL1N'', Ev_findById ''wnd[0]'', Ev_sendVKey ''wnd[0]'' 8,
            Ev_findById ''wnd[1]'', Ev_findById ''wnd[0]/sbar'', Ev_Text ''wnd[0]/sbar'',
            Ev_MessageType ''wnd[0]/sbar'']))
 \<and> run_transaction_report (mock_remote silent_abort_grid) ''FBL1N'' None VKEY_F8
     (Some [''GJAHR'']) 2 ((), [])
   = (Inr [[(''GJAHR'', ''GJAHR-0'')], [(''GJAHR'', ''GJAHR-1'')]],
      ((), [Ev_StartTransaction ''FBL1N'', Ev_findById ''wnd[0]'', Ev_sendVKey ''wnd[0]'' 8,
            Ev_findById ''wnd[1]'', Ev_findById ''wnd[0]/sbar'', Ev_Text ''wnd[0]/sbar'',
            Ev_MessageType ''wnd[0]/sbar'',
            Ev_findById ''wnd[0]/usr/cntlRESULT_LIST/shellcont/shell'',
            Ev_findById ''wnd[0]/usr/cntlCONTAINER/shellcont/shell'',
            Ev_findById ''wnd[0]/usr/cntlGRID1/shellcont/shell'',
            Ev_RowCount ''wnd[0]/usr/cntlGRID1/shellcont/shell'',
            Ev_GetCellValue ''wnd[0]/usr/cntlGRID1/shellcont/shell'' 0 ''GJAHR'',
            Ev_GetCellValue ''wnd[0]/usr/cntlGRID1/shellcont/shell'' 1 ''GJAHR'']))"
proof -
  let ?r = "mock_remote silent_abort_grid"
  let ?tr1 = "[Ev_StartTransaction ''FBL1N'', Ev_findById ''wnd[0]'', Ev_sendVKey ''wnd[0]'' 8,
           Ev_findById ''wnd[1]'']"
  let ?g = "''wnd[0]/usr/cntlGRID1/shellcont/shell''"
  have exec: "report_execute ?r ''FBL1N'' None VKEY_F8 ((), []) = (Inr False, ((), ?tr1))"
    by (simp add: report_defs session_defs com_defs sap_defs mock_defs VKEY_F8_def)
  have sbar: "on_findById ?r ''wnd[0]/sbar'' () = (Inr ''wnd[0]/sbar'', ())"
    and msg_read: "on_Text ?r ''wnd[0]/sbar'' () = (Inr [], ())"
    and sev: "on_MessageType ?r ''wnd[0]/sbar'' () = (Inr ''A'', ())"
    by (simp_all add: mock_defs)
  have grid: "find_grid ?r ''wnd[0]/usr''
      ((), ?tr1 @ [Ev_findById ''wnd[0]/sbar'', Ev_Text ''wnd[0]/sbar'', Ev_MessageType ''wnd[0]/sbar''])
    = (Inr (Some ?g),
       ((), ?tr1 @ [Ev_findById ''wnd[0]/sbar'', Ev_Text ''wnd[0]/sbar'', Ev_MessageType ''wnd[0]/sbar'',
            Ev_findById ''wnd[0]/usr/cntlRESULT_LIST/shellcont/shell'',
            Ev_findById ''wnd[0]/usr/cntlCONTAINER/shellcont/shell'',
            Ev_findById ''wnd[0]/usr/cntlGRID1/shellcont/shell'']))"
    by (simp add: session_defs com_defs sap_defs mock_defs)
  have read: "grid_read_all ?r ?g (Some [''GJAHR'']) 2
      ((), ?tr1 @ [Ev_findById ''wnd[0]/sbar'', Ev_Text ''wnd[0]/sbar'', Ev_MessageType ''wnd[0]/sbar'',
            Ev_findById ''wnd[0]/usr/cntlRESULT_LIST/shellcont/shell'',
            Ev_findById ''wnd[0]/usr/cntlCONTAINER/shellcont/shell'',
            Ev_findById ''wnd[0]/usr/cntlGRID1/shellcont/shell''])
    = (Inr [[(''GJAHR'', ''GJAHR-0'')], [(''GJAHR'', ''GJAHR-1'')]],
      ((), ?tr1 @ [Ev_findById ''wnd[0]/sbar'', Ev_Text ''wnd[0]/sbar'', Ev_MessageType ''wnd[0]/sbar'',
            Ev_findById ''wnd[0]/usr/cntlRESULT_LIST/shellcont/shell'',
            Ev_findById ''wnd[0]/usr/cntlCONTAINER/shellcont/shell'',
            Ev_findById ''wnd[0]/usr/cntlGRID1/shellcont/shell'',
            Ev_RowCount ?g, Ev_GetCellValue ?g 0 ''GJAHR'', Ev_GetCellValue ?g 1 ''GJAHR'']))"
    by (simp add: session_defs com_defs sap_defs mock_defs str_int_def str_nat.simps
        upt_rec [of 0] upt_rec [of 1] upt_rec [of 2] numeral_2_eq_2)
  note run = empty_error_text_reads_grid [OF exec sbar msg_read sev, of "Some [''GJAHR'']" 2]
  from run have status: "check_statusbar_error ?r ((), ?tr1)
      = (Inr (Some []),
         ((), ?tr1 @ [Ev_findById ''wnd[0]/sbar'', Ev_Text ''wnd[0]/sbar'', Ev_MessageType ''wnd[0]/sbar'']))"
    by simp
  from run grid have "run_transaction_report ?r ''FBL1N'' None VKEY_F8 (Some [''GJAHR'']) 2 ((), [])
      = grid_read_all ?r ?g (Some [''GJAHR'']) 2
      ((), ?tr1 @ [Ev_findById ''wnd[0]/sbar'', Ev_Text ''wnd[0]/sbar'', Ev_MessageType ''wnd[0]/sbar'',
            Ev_findById ''wnd[0]/usr/cntlRESULT_LIST/shellcont/shell'',
            Ev_findById ''wnd[0]/usr/cntlCONTAINER/shellcont/shell'',
            Ev_findById ''wnd[0]/usr/cntlGRID1/shellcont/shell''])"
    by blast
  with read status show ?thesis by simp
qed

text \<open>
  Claim C2 says that a Workflow Helper whose post-execute status readout has severity Error
  or Abort returns an empty result and never invokes the Grid Reader. The lemmas
  \<open>report_harvest_short_circuit\<close> and \<open>se16h_harvest_short_circuit\<close> show this for a
  non-empty message text. On the screen \<open>silent_error_grid\<close>, where the severity is
  \<^verbatim>\<open>E\<close> and the text is empty, both helpers read the status, then probe for the grid, read
  it and return its three rows.
\<close>

theorem silent_error_reaches_grid_reader:
  "run_transaction_report (mock_remote silent_error_grid) ''FBL1N'' (Some [(''BUKRS'', ''1000'')])
     VKEY_F8 None 0 ((), [])
   = (Inr [[(''BUKRS'', ''BUKRS-0''), (''GJAHR'', ''GJAHR-0'')],
           [(''BUKRS'', ''BUKRS-1''), (''GJAHR'', ''GJAHR-1'')],
           [(''BUKRS'', ''BUKRS-2''), (''GJAHR'', ''GJAHR-2'')]],
      (),
      [Ev_StartTransaction ''FBL1N'', Ev_findByName ''BUKRS'' ''ctxt'',
       Ev_set_text ''ctxtBUKRS'' ''1000'', Ev_findById ''wnd[0]'',
       Ev_sendVKey ''wnd[0]'' 8, Ev_findById ''wnd[1]'',
       Ev_findById ''wnd[0]/sbar'', Ev_Text ''wnd[0]/sbar'',
       Ev_MessageType ''wnd[0]/sbar'',
       Ev_findById ''wnd[0]/usr/cntlRESULT_LIST/shellcont/shell'',
       Ev_findById ''wnd[0]/usr/cntlCONTAINER/shellcont/shell'',
       Ev_findById ''wnd[0]/usr/cntlGRID1/shellcont/shell'',
       Ev_ColumnOrder ''wnd[0]/usr/cntlGRID1/shellcont/shell'',
       Ev_RowCount ''wnd[0]/usr/cntlGRID1/shellcont/shell'',
       Ev_GetCellValue ''wnd[0]/usr/cntlGRID1/shellcont/shell'' 0 ''BUKRS'',
       Ev_GetCellValue ''wnd[0]/usr/cntlGRID1/shellcont/shell'' 0 ''GJAHR'',
       Ev_GetCellValue ''wnd[0]/usr/cntlGRID1/shellcont/shell'' 1 ''BUKRS'',
       Ev_GetCellValue ''wnd[0]/usr/cntlGRID1/shellcont/shell'' 1 ''GJAHR'',
       Ev_GetCellValue ''wnd[0]/usr/cntlGRID1/shellcont/shell'' 2 ''BUKRS'',
       Ev_GetCellValue ''wnd[0]/usr/cntlGRID1/shellcont/shell'' 2 ''GJAHR''])
 \<and> run_se16h (mock_remote silent_error_grid) ''BSIK''
     [\<lparr>fc_name = ''BUKRS'', fc_group = False, fc_sum = False, fc_value = Some ''1000''\<rparr>] 0 ((), [])
   = (Inr [[(''BUKRS'', ''BUKRS-0'')], [(''BUKRS'', ''BUKRS-1'')], [(''BUKRS'', ''BUKRS-2'')]],
      (),
      [Ev_StartTransaction ''SE16H'', Ev_findById ''wnd[0]/usr/ctxtGD-TAB'',
       Ev_set_text ''wnd[0]/usr/ctxtGD-TAB'' ''BSIK'', Ev_findById ''wnd[0]'',
       Ev_sendVKey ''wnd[0]'' 0,
       Ev_findById ''wnd[0]/usr/tblSAPLSE16HFIELDS_TABLE/ctxtGS_FIELDS-FIELDNAME[0,0]'',
       Ev_set_text ''wnd[0]/usr/tblSAPLSE16HFIELDS_TABLE/ctxtGS_FIELDS-FIELDNAME[0,0]'' ''BUKRS'',
       Ev_findById ''wnd[0]'', Ev_sendVKey ''wnd[0]'' 0,
       Ev_findByName ''BUKRS'' ''ctxt'', Ev_set_text ''ctxtBUKRS'' ''1000'',
       Ev_findById ''wnd[0]'', Ev_sendVKey ''wnd[0]'' 8, Ev_findById ''wnd[1]'',
       Ev_findById ''wnd[0]/sbar'', Ev_Text ''wnd[0]/sbar'',
       Ev_MessageType ''wnd[0]/sbar'',
       Ev_findById ''wnd[0]/usr/cntlRESULT_LIST/shellcont/shell'',
       Ev_findById ''wnd[0]/usr/cntlCONTAINER/shellcont/shell'',
       Ev_findById ''wnd[0]/usr/cntlGRID1/shellcont/shell'',
       Ev_RowCount ''wnd[0]/usr/cntlGRID1/shellcont/shell'',
       Ev_GetCellValue ''wnd[0]/usr/cntlGRID1/shellcont/shell'' 0 ''BUKRS'',
       Ev_GetCellValue ''wnd[0]/usr/cntlGRID1/shellcont/shell'' 1 ''BUKRS'',
       Ev_GetCellValue ''wnd[0]/usr/cntlGRID1/shellcont/shell'' 2 ''BUKRS''])"
  by (simp add: report_defs se16h_defs session_defs com_defs sap_defs mock_defs
      VKEY_F8_def VKEY_ENTER_def str_int_def str_nat.simps
      upt_rec [of 0] upt_rec [of 1] upt_rec [of 2] upt_rec [of 3] numeral_3_eq_3)

end
